theory Spec2Isabelle
  imports Main "HOL-Library.Multiset"
begin

text \<open>
  The job selection and filtering logic of the Slurm job manager: the job provider
  (\<open>SlurmJobProvider.ts\<close>), the page of the job view (\<open>JobsWebviewProvider.ts\<close>)
  and the filter of the terminal script (\<open>slurm_manager.sh\<close>), as functions on the
  state of the extension, with the properties of selection, filtering, visibility and
  kill confirmation that hold of them.
\<close>

section \<open>JavaScript values used by the extension\<close>

text \<open>
  Strings are byte lists. \<open>String.prototype.trim\<close> removes white space at both
  ends; the model removes the ASCII white space characters (space, tab, line feed,
  vertical tab, form feed, carriage return).
\<close>

definition isWhiteSpace :: "char \<Rightarrow> bool" where
  "isWhiteSpace c = (c = CHR '' '' \<or> c = CHR 0x09 \<or> c = CHR 0x0A \<or> c = CHR 0x0B
     \<or> c = CHR 0x0C \<or> c = CHR 0x0D)"

definition js_trim :: "string \<Rightarrow> string" where
  "js_trim s = rev (dropWhile isWhiteSpace (rev (dropWhile isWhiteSpace s)))"

text \<open>\<open>s.split(c)\<close> for a one-character separator: the result is never empty.\<close>

fun js_split :: "char \<Rightarrow> string \<Rightarrow> string list" where
  "js_split c [] = [[]]"
| "js_split c (x # xs) =
     (if x = c then [] # js_split c xs
      else (case js_split c xs of
              [] \<Rightarrow> [[x]]
            | y # ys \<Rightarrow> (x # y) # ys))"

text \<open>\<open>xs.join(sep)\<close>.\<close>

fun js_join :: "string \<Rightarrow> string list \<Rightarrow> string" where
  "js_join sep [] = []"
| "js_join sep [x] = x"
| "js_join sep (x # y # ys) = x @ sep @ js_join sep (y # ys)"

text \<open>\<open>toLowerCase\<close> on the ASCII letters.\<close>

definition lowerChar :: "char \<Rightarrow> char" where
  "lowerChar c =
     (let n = (of_char c :: nat) in if 65 \<le> n \<and> n \<le> 90 then char_of (n + 32) else c)"

definition toLowerCase :: "string \<Rightarrow> string" where
  "toLowerCase s = map lowerChar s"

text \<open>Whether the first string occurs in the second, and whether it starts it.\<close>

fun startsWith :: "string \<Rightarrow> string \<Rightarrow> bool" where
  "startsWith [] s = True"
| "startsWith (p # ps) [] = False"
| "startsWith (p # ps) (c # cs) = (p = c \<and> startsWith ps cs)"

fun hasSubstring :: "string \<Rightarrow> string \<Rightarrow> bool" where
  "hasSubstring p [] = (p = [])"
| "hasSubstring p (c # cs) = (startsWith p (c # cs) \<or> hasSubstring p cs)"

text \<open>A natural number in a template string: its decimal digits.\<close>

fun showNat :: "nat \<Rightarrow> string" where
  "showNat n = (if n < 10 then [char_of (48 + n)] else showNat (n div 10) @ [char_of (48 + n mod 10)])"

declare showNat.simps [simp del]

text \<open>
  A \<open>Set<string>\<close> keeps its elements in insertion order, which \<open>Array.from\<close>
  reads back: a list without repetitions. \<open>add\<close> of a member changes nothing,
  \<open>delete\<close> removes the element.
\<close>

type_synonym str_set = "string list"

definition set_has :: "str_set \<Rightarrow> string \<Rightarrow> bool" where
  "set_has S x = (x \<in> set S)"

definition set_add :: "str_set \<Rightarrow> string \<Rightarrow> str_set" where
  "set_add S x = (if x \<in> set S then S else S @ [x])"

definition set_delete :: "str_set \<Rightarrow> string \<Rightarrow> str_set" where
  "set_delete S x = removeAll x S"

text \<open>
  A \<open>Map<string, Job>\<close> likewise keeps insertion order; \<open>set\<close> on a present
  key replaces the value where it stands.
\<close>

fun map_set :: "string \<Rightarrow> 'v \<Rightarrow> (string \<times> 'v) list \<Rightarrow> (string \<times> 'v) list" where
  "map_set k v [] = [(k, v)]"
| "map_set k v ((k', v') # m) = (if k' = k then (k, v) # m else (k', v') # map_set k v m)"

definition map_has :: "(string \<times> 'v) list \<Rightarrow> string \<Rightarrow> bool" where
  "map_has m k = (k \<in> set (map fst m))"

text \<open>
  A compiled, non-global \<open>RegExp\<close> is used only through \<open>test\<close>, which for such an
  object has no state: the object is its \<open>test\<close> function.
\<close>

type_synonym regexp = "string \<Rightarrow> bool"

section \<open>Jobs and the external commands\<close>

record job =
  name :: string
  jobId :: string
  status :: string
  nodelist :: string
  runningTime :: string
  startTime :: string

text \<open>
  The view model that \<open>updateView\<close> renders: each job row with the flags that
  \<open>generateJobsHtml\<close> computes for it, the three sections, and the classes and
  buttons that depend on the state.
\<close>

record row =
  rowJob :: job
  isSelected :: bool
  isHighlighted :: bool
  isConfirmingKill :: bool
  isMonitored :: bool

record view =
  runningRows :: "row list"
  scheduledRows :: "row list"
  pastRows :: "row list"
  scheduledExpanded :: bool
  pastExpanded :: bool
  confirmingKillAll :: bool

text \<open>
  What the user sees or what leaves the process. \<open>NotifyCompletion\<close> is the
  \<open>showInformationMessage\<close> call of \<open>getSlurmJobs\<close> for a job that left the
  queue, tagged with the key of that job; \<open>TreeDataChanged\<close> is the event fired by
  \<open>refresh\<close> and \<open>refreshJob\<close>; \<open>Render\<close> is the assignment of the page.
  \<open>OpenFile\<close> stands for the attempt of \<open>viewOutput\<close> or \<open>viewError\<close> to open
  a file of the workspace, whose outcome depends on the file system. Console logging is
  left out.
\<close>

datatype effect =
    ShowInformationMessage string
  | ShowWarningMessage string
  | ShowErrorMessage string
  | NotifyCompletion string string
  | TreeDataChanged
  | Render view
  | CreateTerminal string string
  | ExecuteCommand string string
  | OutputChannel string string
  | OpenFile string

text \<open>
  One run of \<open>execAsync\<close>: the standard output, or a rejection. The outside world
  during one poll is a function from the command line to its outcome.
\<close>

datatype exec_result = Resolved string | Rejected

type_synonym world = "string \<Rightarrow> exec_result"

definition executeSlurmCommand :: "world \<Rightarrow> string \<Rightarrow> string" where
  "executeSlurmCommand w command =
     (case w command of Resolved out \<Rightarrow> js_trim out | Rejected \<Rightarrow> [])"

definition parseJobTime :: "string \<Rightarrow> string" where
  "parseJobTime timeStr =
     (let parts = js_split CHR '':'' timeStr in
      if length parts = 3 then timeStr
      else if length parts = 2 then ''00:'' @ timeStr
      else ''00:00:00'')"

text \<open>
  One line of the \<open>squeue\<close> output. With fewer than six fields a destructured
  variable is \<open>undefined\<close> and its \<open>trim\<close> throws: \<open>None\<close>. The map key is the
  first field as split, the job's \<open>jobId\<close> is that field trimmed.
\<close>

definition parseLine :: "string \<Rightarrow> (string \<times> job) option" where
  "parseLine line =
     (case js_split CHR ''|'' line of
        jid # nm # st # nl # rt # stt # _ \<Rightarrow>
          Some (jid, \<lparr> name = js_trim nm, jobId = js_trim jid, status = js_trim st,
                      nodelist = (if js_trim nl = ''(None)'' then [] else js_trim nl),
                      runningTime = parseJobTime (js_trim rt), startTime = js_trim stt \<rparr>)
      | _ \<Rightarrow> None)"

fun parseLines :: "string list \<Rightarrow> (string \<times> job) list option" where
  "parseLines [] = Some []"
| "parseLines (l # ls) =
     (case parseLine l of
        None \<Rightarrow> None
      | Some e \<Rightarrow> (case parseLines ls of None \<Rightarrow> None | Some es \<Rightarrow> Some (e # es)))"

section \<open>SlurmJobProvider\<close>

record provider =
  jobsToConfirm :: str_set
  filterRegex :: "regexp option"
  lastKnownJobs :: "(string \<times> job) list"
  notifiedJobs :: str_set

definition sacctCommand :: "string \<Rightarrow> string" where
  "sacctCommand jid = ''sacct -j '' @ jid @ '' -o State -n -P''"

definition completionMessage :: "job \<Rightarrow> string \<Rightarrow> string \<Rightarrow> string" where
  "completionMessage lastJob jid finalStatus =
     ''Job '' @ name lastJob @ '' ('' @ jid @ '') has '' @ toLowerCase finalStatus"

text \<open>
  The loop of \<open>getSlurmJobs\<close> over the entries of \<open>lastKnownJobs\<close>. It threads the
  notified set, the job list being returned and the effects. \<open>executeSlurmCommand\<close>
  never throws, so the handler of the inner \<open>try\<close>, which adds the key to the notified
  set as well, is not reached.
\<close>

fun checkCompleted ::
  "world \<Rightarrow> (string \<times> job) list \<Rightarrow> (string \<times> job) list \<Rightarrow>
   str_set \<times> job list \<times> effect list \<Rightarrow> str_set \<times> job list \<times> effect list" where
  "checkCompleted w currentJobs [] acc = acc"
| "checkCompleted w currentJobs ((jid, lastJob) # rest) (notified, jobs, effs) =
     (if \<not> map_has currentJobs jid \<and> \<not> set_has notified jid then
        (if status lastJob = ''RUNNING'' \<or> status lastJob = ''PENDING'' then
           (let sacctOutput = executeSlurmCommand w (sacctCommand jid) in
            if sacctOutput \<noteq> [] then
              (let finalStatus =
                     (case js_split CHR 0x0A sacctOutput of [] \<Rightarrow> [] | l # _ \<Rightarrow> js_trim l)
               in checkCompleted w currentJobs rest
                    (set_add notified jid,
                     jobs @ [lastJob\<lparr>status := finalStatus\<rparr>],
                     effs @ [NotifyCompletion jid (completionMessage lastJob jid finalStatus)]))
            else checkCompleted w currentJobs rest (set_add notified jid, jobs, effs))
         else checkCompleted w currentJobs rest (notified, jobs, effs))
      else checkCompleted w currentJobs rest (notified, jobs, effs))"

definition squeueCommand :: string where
  "squeueCommand = ''squeue -o \"%i|%j|%T|%N|%M|%V\" -h''"

text \<open>
  One call of \<open>getSlurmJobs\<close> that runs from its start to its return with no other
  code of the extension in between: the jobs, the provider after the call and the
  effects. The three early returns (no \<open>squeue\<close>, empty queue, a line that does not
  parse) give the empty list and leave the provider as it was. The call is
  asynchronous; what happens at its awaits when other calls are in flight is the
  subject of the next subsection.
\<close>

definition getSlurmJobs :: "world \<Rightarrow> provider \<Rightarrow> job list \<times> provider \<times> effect list" where
  "getSlurmJobs w p =
     (if executeSlurmCommand w ''squeue --version'' = [] then ([], p, [])
      else
        (let squeueOutput = executeSlurmCommand w squeueCommand in
         if squeueOutput = [] then ([], p, [])
         else
           (case parseLines (filter (\<lambda>line. js_trim line \<noteq> [])
                               (js_split CHR 0x0A squeueOutput)) of
              None \<Rightarrow> ([], p, [])
            | Some entries \<Rightarrow>
                (let currentJobs = foldl (\<lambda>m (k, j). map_set k j m) [] entries;
                     (notified, jobs, effs) =
                        checkCompleted w currentJobs (lastKnownJobs p)
                          (notifiedJobs p, map snd entries, [])
                 in (jobs, p\<lparr>lastKnownJobs := currentJobs, notifiedJobs := notified\<rparr>, effs)))))"

subsection \<open>The awaits of getSlurmJobs\<close>

text \<open>
  \<open>getSlurmJobs\<close> awaits every external command, and between an await and its answer
  other handlers run. A call in flight is at one of its awaits: of
  \<open>squeue --version\<close>, of \<open>squeue\<close>, or of \<open>sacct\<close> for one job in the loop, where
  it holds its local \<open>currentJobs\<close> and \<open>jobs\<close>, the entry at hand and the entries
  that the iterator has still to give; or it has returned. The fields
  \<open>lastKnownJobs\<close> and \<open>notifiedJobs\<close> belong to the provider and are shared by all
  calls.
\<close>

datatype poll =
    AwaitVersion
  | AwaitSqueue
  | AwaitSacct "(string \<times> job) list" "job list" string job "(string \<times> job) list"
  | Returned "job list"

fun awaited :: "poll \<Rightarrow> string option" where
  "awaited AwaitVersion = Some ''squeue --version''"
| "awaited AwaitSqueue = Some squeueCommand"
| "awaited (AwaitSacct currentJobs jobs jid lastJob rest) = Some (sacctCommand jid)"
| "awaited (Returned jobs) = None"

text \<open>
  The loop from one entry on, up to its next await or to the end of the call. The test
  of \<open>notifiedJobs\<close> reads the provider as it is when the loop comes to the entry.
\<close>

fun advance ::
  "(string \<times> job) list \<Rightarrow> job list \<Rightarrow> (string \<times> job) list \<Rightarrow> provider \<Rightarrow> poll \<times> provider" where
  "advance currentJobs jobs [] p = (Returned jobs, p\<lparr>lastKnownJobs := currentJobs\<rparr>)"
| "advance currentJobs jobs ((jid, lastJob) # rest) p =
     (if \<not> map_has currentJobs jid \<and> \<not> set_has (notifiedJobs p) jid then
        (if status lastJob = ''RUNNING'' \<or> status lastJob = ''PENDING''
         then (AwaitSacct currentJobs jobs jid lastJob rest, p)
         else advance currentJobs jobs rest p)
      else advance currentJobs jobs rest p)"

text \<open>
  The call goes on when the command it awaits has answered with \<open>out\<close>, the value of
  \<open>executeSlurmCommand\<close>, and runs up to its next await or to its return.
\<close>

fun resume :: "string \<Rightarrow> poll \<Rightarrow> provider \<Rightarrow> poll \<times> provider \<times> effect list" where
  "resume out AwaitVersion p =
     (if out = [] then (Returned [], p, []) else (AwaitSqueue, p, []))"
| "resume out AwaitSqueue p =
     (if out = [] then (Returned [], p, [])
      else
        (case parseLines (filter (\<lambda>line. js_trim line \<noteq> []) (js_split CHR 0x0A out)) of
           None \<Rightarrow> (Returned [], p, [])
         | Some entries \<Rightarrow>
             (let currentJobs = foldl (\<lambda>m (k, j). map_set k j m) [] entries;
                  (pl, p') = advance currentJobs (map snd entries) (lastKnownJobs p) p
              in (pl, p', []))))"
| "resume out (AwaitSacct currentJobs jobs jid lastJob rest) p =
     (if out \<noteq> [] then
        (let finalStatus = (case js_split CHR 0x0A out of [] \<Rightarrow> [] | l # _ \<Rightarrow> js_trim l);
             (pl, p') = advance currentJobs (jobs @ [lastJob\<lparr>status := finalStatus\<rparr>]) rest
                          (p\<lparr>notifiedJobs := set_add (notifiedJobs p) jid\<rparr>)
         in (pl, p', [NotifyCompletion jid (completionMessage lastJob jid finalStatus)]))
      else
        (let (pl, p') = advance currentJobs jobs rest
                          (p\<lparr>notifiedJobs := set_add (notifiedJobs p) jid\<rparr>)
         in (pl, p', [])))"
| "resume out (Returned jobs) p = (Returned jobs, p, [])"

text \<open>
  Several calls in flight over one provider. \<open>answer w i\<close> lets the command that call
  \<open>i\<close> awaits answer as the world \<open>w\<close> has it; \<open>answers\<close> does so for a list of
  calls in the order of the list. A call that has just been made stands at
  \<open>AwaitVersion\<close>.
\<close>

definition answer ::
  "world \<Rightarrow> nat \<Rightarrow> provider \<times> poll list \<Rightarrow> (provider \<times> poll list) \<times> effect list" where
  "answer w i st =
     (let (p, calls) = st in
      if i < length calls then
        (case awaited (calls ! i) of
           None \<Rightarrow> (st, [])
         | Some command \<Rightarrow>
             (let (pl, p', effs) = resume (executeSlurmCommand w command) (calls ! i) p
              in ((p', calls[i := pl]), effs)))
      else (st, []))"

fun answers ::
  "world \<Rightarrow> nat list \<Rightarrow> provider \<times> poll list \<Rightarrow> (provider \<times> poll list) \<times> effect list" where
  "answers w [] st = (st, [])"
| "answers w (i # is) st =
     (let (st1, effs1) = answer w i st; (st2, effs2) = answers w is st1 in (st2, effs1 @ effs2))"

text \<open>
  One call answered again and again until it returns, with no other call in between.
  It returns: the number of awaits it has still to make is bounded by \<open>remaining\<close>,
  which every answer lowers.
\<close>

definition remaining :: "poll \<Rightarrow> provider \<Rightarrow> nat" where
  "remaining pl p =
     (case pl of
        AwaitVersion \<Rightarrow> length (lastKnownJobs p) + 3
      | AwaitSqueue \<Rightarrow> length (lastKnownJobs p) + 2
      | AwaitSacct currentJobs jobs jid lastJob rest \<Rightarrow> length rest + 1
      | Returned jobs \<Rightarrow> 0)"

function finish ::
  "world \<Rightarrow> poll \<Rightarrow> provider \<Rightarrow> effect list \<Rightarrow> job list \<times> provider \<times> effect list" where
  "finish w pl p effs =
     (case awaited pl of
        None \<Rightarrow> ((case pl of Returned jobs \<Rightarrow> jobs | _ \<Rightarrow> []), p, effs)
      | Some command \<Rightarrow>
          finish w (fst (resume (executeSlurmCommand w command) pl p))
                   (fst (snd (resume (executeSlurmCommand w command) pl p)))
                   (effs @ snd (snd (resume (executeSlurmCommand w command) pl p))))"
  by pat_completeness auto
termination
proof (relation "measure (\<lambda>(w, pl, p, effs). remaining pl p)")
  show "wf (measure (\<lambda>(w, pl, p, effs). remaining pl p))" by simp
next
  fix w :: world and pl p and effs :: "effect list" and command
  assume aw: "awaited pl = Some command"
  define out where "out = executeSlurmCommand w command"
  have adv: "(\<exists>J. fst (advance cur jobs entries q) = Returned J)
     \<or> (\<exists>J jid lastJob rest. fst (advance cur jobs entries q) = AwaitSacct cur J jid lastJob rest
          \<and> length rest < length entries)" for cur jobs entries q
    by (induction cur jobs entries q rule: advance.induct) auto
  have bound: "remaining (fst (advance cur jobs entries q)) q' \<le> length entries"
    for cur jobs entries q q'
    using adv [of cur jobs entries q] by (auto simp: remaining_def)
  have "remaining (fst (resume out pl p)) (fst (snd (resume out pl p))) < remaining pl p"
  proof (cases pl)
    case AwaitVersion
    then show ?thesis by (simp add: remaining_def)
  next
    case AwaitSqueue
    have "remaining (fst (resume out AwaitSqueue p)) p' \<le> length (lastKnownJobs p)" for p'
    proof (cases "out = []")
      case True
      then show ?thesis by (simp add: remaining_def)
    next
      case False
      show ?thesis
      proof (cases "parseLines (filter (\<lambda>line. js_trim line \<noteq> []) (js_split CHR 0x0A out))")
        case None
        with False show ?thesis by (simp add: remaining_def)
      next
        case (Some entries)
        with False have "fst (resume out AwaitSqueue p)
          = fst (advance (foldl (\<lambda>m (k, j). map_set k j m) [] entries) (map snd entries)
                   (lastKnownJobs p) p)"
          by (simp add: Let_def case_prod_beta)
        then show ?thesis by (simp only: bound)
      qed
    qed
    then have "remaining (fst (resume out AwaitSqueue p)) (fst (snd (resume out AwaitSqueue p)))
                < length (lastKnownJobs p) + 2"
      by (rule le_less_trans) simp
    then show ?thesis using AwaitSqueue by (simp add: remaining_def)
  next
    case (AwaitSacct cur jobs jid lastJob rest)
    have "\<exists>J. fst (resume out (AwaitSacct cur jobs jid lastJob rest) p)
            = fst (advance cur J rest (p\<lparr>notifiedJobs := set_add (notifiedJobs p) jid\<rparr>))"
      by (cases "out = []") (auto simp: Let_def case_prod_beta)
    then obtain J where "fst (resume out (AwaitSacct cur jobs jid lastJob rest) p)
            = fst (advance cur J rest (p\<lparr>notifiedJobs := set_add (notifiedJobs p) jid\<rparr>))" ..
    then have "remaining (fst (resume out (AwaitSacct cur jobs jid lastJob rest) p)) p' \<le> length rest"
      for p' by (simp only: bound)
    then have "remaining (fst (resume out (AwaitSacct cur jobs jid lastJob rest) p))
                 (fst (snd (resume out (AwaitSacct cur jobs jid lastJob rest) p))) < length rest + 1"
      by (rule le_less_trans) simp
    then show ?thesis using AwaitSacct by (simp add: remaining_def)
  next
    case (Returned jobs)
    then show ?thesis using aw by simp
  qed
  then show "((w, fst (resume (executeSlurmCommand w command) pl p),
               fst (snd (resume (executeSlurmCommand w command) pl p)),
               effs @ snd (snd (resume (executeSlurmCommand w command) pl p))),
              (w, pl, p, effs)) \<in> measure (\<lambda>(w, pl, p, effs). remaining pl p)"
    by (simp add: out_def)
qed

declare finish.simps [simp del]

definition refresh :: "provider \<Rightarrow> provider \<times> effect list" where
  "refresh p = (p, [TreeDataChanged])"

definition setJobToConfirm :: "string \<Rightarrow> provider \<Rightarrow> provider \<times> effect list" where
  "setJobToConfirm jid p = (p\<lparr>jobsToConfirm := set_add (jobsToConfirm p) jid\<rparr>, [TreeDataChanged])"

definition clearJobToConfirm :: "string \<Rightarrow> provider \<Rightarrow> provider \<times> effect list" where
  "clearJobToConfirm jid p =
     (p\<lparr>jobsToConfirm := set_delete (jobsToConfirm p) jid\<rparr>, [TreeDataChanged])"

definition isJobToConfirm :: "provider \<Rightarrow> string \<Rightarrow> bool" where
  "isJobToConfirm p jid = set_has (jobsToConfirm p) jid"

text \<open>
  What the code takes from its platform: the \<open>RegExp\<close> constructor (pattern and
  flags; \<open>None\<close> is the \<open>SyntaxError\<close> of an invalid pattern),
  \<open>String.prototype.localeCompare\<close>, and the configured \<open>jobHistorySize\<close>.
\<close>

record env =
  RegExp :: "string \<Rightarrow> string \<Rightarrow> regexp option"
  localeCompare :: "string \<Rightarrow> string \<Rightarrow> int"
  jobHistorySize :: int

definition setFilter :: "env \<Rightarrow> string option \<Rightarrow> provider \<Rightarrow> provider \<times> effect list" where
  "setFilter e pattern p =
     (case pattern of
        None \<Rightarrow> refresh (p\<lparr>filterRegex := None\<rparr>)
      | Some pat \<Rightarrow>
          (if pat = [] then refresh (p\<lparr>filterRegex := None\<rparr>)
           else (case RegExp e pat ''i'' of
                   None \<Rightarrow> (p, [ShowErrorMessage ''Invalid regex pattern''])
                 | Some r \<Rightarrow> refresh (p\<lparr>filterRegex := Some r\<rparr>))))"

subsection \<open>Sorting\<close>

text \<open>
  \<open>Array.prototype.sort\<close> is stable. For a consistent comparator its result is the
  stable insertion sort below; for an inconsistent one the order is left to the
  implementation, and the model keeps insertion sort.
\<close>

fun insertBy :: "('a \<Rightarrow> 'a \<Rightarrow> int) \<Rightarrow> 'a \<Rightarrow> 'a list \<Rightarrow> 'a list" where
  "insertBy c x [] = [x]"
| "insertBy c x (y # ys) = (if c x y \<le> 0 then x # y # ys else y # insertBy c x ys)"

definition js_sort :: "('a \<Rightarrow> 'a \<Rightarrow> int) \<Rightarrow> 'a list \<Rightarrow> 'a list" where
  "js_sort c xs = foldr (insertBy c) xs []"

text \<open>\<open>xs.slice(0, e)\<close>: a negative end counts from the end of the array.\<close>

definition js_slice0 :: "'a list \<Rightarrow> int \<Rightarrow> 'a list" where
  "js_slice0 xs e = (if e < 0 then take (nat (int (length xs) + e)) xs else take (nat e) xs)"

text \<open>
  The priority tables are object literals read with \<open>table[status] ?? 999\<close>. For a
  status that names a property of \<open>Object.prototype\<close> the lookup gives that property,
  a difference with it is \<open>NaN\<close>, and \<open>sort\<close> reads a comparator result \<open>NaN\<close>
  as 0.
\<close>

definition inheritedProperty :: "string \<Rightarrow> bool" where
  "inheritedProperty k = (k \<in> set [''constructor'', ''__defineGetter__'', ''__defineSetter__'',
     ''hasOwnProperty'', ''__lookupGetter__'', ''__lookupSetter__'', ''isPrototypeOf'',
     ''propertyIsEnumerable'', ''toString'', ''valueOf'', ''__proto__'', ''toLocaleString''])"

text \<open>The table of \<open>getChildren\<close>.\<close>

definition statusOrder :: "string \<Rightarrow> int" where
  "statusOrder st =
     (if st = ''RUNNING'' then 0
      else if st = ''COMPLETING'' then 1
      else if st = ''PENDING'' then 2
      else if st = ''FAILED'' then 3
      else if st = ''FINISHED'' then 4
      else if st = ''COMPLETED'' then 4
      else 999)"

text \<open>The table of \<open>updateView\<close>.\<close>

definition statusPriority :: "string \<Rightarrow> int" where
  "statusPriority st =
     (if st = ''RUNNING'' then 0
      else if st = ''PENDING'' then 1
      else if st = ''COMPLETING'' then 2
      else if st = ''FAILED'' then 3
      else 999)"

record jobItem =
  label :: string
  itemJobId :: string
  itemStatus :: string
  itemNodelist :: string
  itemRunningTime :: string
  confirmKill :: bool

text \<open>
  The comparator of \<open>getChildren\<close> compares the two looked-up values first: two equal
  statuses that name an inherited property give the same value and are compared by
  label; an inherited property against anything else gives \<open>NaN\<close>, read as 0.
\<close>

definition compareItems :: "env \<Rightarrow> jobItem \<Rightarrow> jobItem \<Rightarrow> int" where
  "compareItems e a b =
     (if inheritedProperty (itemStatus a) \<or> inheritedProperty (itemStatus b) then
        (if itemStatus a = itemStatus b then localeCompare e (label a) (label b) else 0)
      else
        (let statusA = statusOrder (itemStatus a); statusB = statusOrder (itemStatus b) in
         if statusA \<noteq> statusB then statusA - statusB
         else localeCompare e (label a) (label b)))"

text \<open>\<open>getChildren\<close> for the root of the tree; an element of the tree has no children.\<close>

definition getChildren :: "env \<Rightarrow> world \<Rightarrow> provider \<Rightarrow> jobItem list \<times> provider \<times> effect list" where
  "getChildren e w p =
     (let (jobs, p', effs) = getSlurmJobs w p;
          filteredJobs = (case filterRegex p' of
                            None \<Rightarrow> jobs
                          | Some r \<Rightarrow> filter (\<lambda>j. r (name j)) jobs);
          jobItems = map (\<lambda>j. \<lparr> label = name j, itemJobId = jobId j, itemStatus = status j,
                                 itemNodelist = nodelist j, itemRunningTime = runningTime j,
                                 confirmKill = isJobToConfirm p' (jobId j) \<rparr>) filteredJobs
      in (js_sort (compareItems e) jobItems, p', effs))"

section \<open>JobsWebviewProvider\<close>

record webview =
  viewResolved :: bool
  slurmJobProvider :: provider
  selectedJobs :: str_set
  monitoredJobs :: str_set
  highlightRegex :: "regexp option"
  isConfirmingKillAll :: bool
  isPastJobsExpanded :: bool
  isScheduledJobsExpanded :: bool

definition getVisibleJobs :: "webview \<Rightarrow> job list \<Rightarrow> job list" where
  "getVisibleJobs s jobs =
     (let runningJobs = filter (\<lambda>j. status j = ''RUNNING'' \<or> status j = ''COMPLETING'') jobs;
          scheduledJobs = (if isScheduledJobsExpanded s
                           then filter (\<lambda>j. status j = ''PENDING'') jobs else []);
          pastJobs = (if isPastJobsExpanded s
                      then filter (\<lambda>j. status j \<in> set [''COMPLETED'', ''FAILED'']) jobs else [])
      in runningJobs @ scheduledJobs @ pastJobs)"

definition compareJobs :: "env \<Rightarrow> job \<Rightarrow> job \<Rightarrow> int" where
  "compareJobs e a b =
     (if inheritedProperty (status a) \<or> inheritedProperty (status b) then 0
      else
        (let statusDiff = statusPriority (status a) - statusPriority (status b) in
         if statusDiff \<noteq> 0 then statusDiff
         else localeCompare e (name a) (name b)))"

definition generateJobsHtml :: "webview \<Rightarrow> job list \<Rightarrow> row list" where
  "generateJobsHtml s jobs =
     map (\<lambda>j. \<lparr> rowJob = j,
                 isSelected = set_has (selectedJobs s) (jobId j),
                 isHighlighted = (case highlightRegex s of None \<Rightarrow> False | Some r \<Rightarrow> r (name j)),
                 isConfirmingKill = isJobToConfirm (slurmJobProvider s) (jobId j),
                 isMonitored = set_has (monitoredJobs s) (jobId j) \<rparr>) jobs"

text \<open>The part of \<open>updateView\<close> after the poll: the page for a list of jobs.\<close>

definition renderView :: "env \<Rightarrow> webview \<Rightarrow> job list \<Rightarrow> view" where
  "renderView e s jobs =
     (let sortedJobs = js_sort (compareJobs e) jobs;
          runningJobs = filter (\<lambda>j. status j = ''RUNNING'' \<or> status j = ''COMPLETING'') sortedJobs;
          scheduledJobs = filter (\<lambda>j. status j = ''PENDING'') sortedJobs;
          historySize = jobHistorySize e;
          pastJobs = js_slice0
            (filter (\<lambda>j. status j \<noteq> ''RUNNING'' \<and> status j \<noteq> ''PENDING''
                          \<and> status j \<noteq> ''COMPLETING'') sortedJobs) historySize
      in \<lparr> runningRows = generateJobsHtml s runningJobs,
           scheduledRows = generateJobsHtml s scheduledJobs,
           pastRows = generateJobsHtml s pastJobs,
           scheduledExpanded = isScheduledJobsExpanded s,
           pastExpanded = isPastJobsExpanded s,
           confirmingKillAll = isConfirmingKillAll s \<rparr>)"

definition updateView :: "env \<Rightarrow> world \<Rightarrow> webview \<Rightarrow> webview \<times> effect list" where
  "updateView e w s =
     (if \<not> viewResolved s then (s, [])
      else
        (let (jobs, p, effs) = getSlurmJobs w (slurmJobProvider s);
             s' = s\<lparr>slurmJobProvider := p\<rparr>
         in (s', effs @ [Render (renderView e s' jobs)])))"

text \<open>
  The jobs of the page that are on display: the content of a section without the class
  \<open>expanded\<close> has \<open>display: none\<close>; the first section always has the class.
\<close>

definition shownJobs :: "view \<Rightarrow> job list" where
  "shownJobs v =
     map rowJob (runningRows v)
     @ (if scheduledExpanded v then map rowJob (scheduledRows v) else [])
     @ (if pastExpanded v then map rowJob (pastRows v) else [])"

text \<open>
  Lines 45 to 54 of the \<open>regexEnter\<close> handler: the selection after the matching
  visible jobs have been removed from it, if all were in it, or added to it.
\<close>

definition bulkToggle :: "regexp \<Rightarrow> job list \<Rightarrow> str_set \<Rightarrow> str_set" where
  "bulkToggle regex visibleJobs selected =
     (let matchingJobs = filter (\<lambda>j. regex (name j)) visibleJobs;
          allMatching = list_all (\<lambda>j. set_has selected (jobId j)) matchingJobs
      in if allMatching
         then foldl (\<lambda>S j. set_delete S (jobId j)) selected matchingJobs
         else foldl (\<lambda>S j. set_add S (jobId j)) selected matchingJobs)"

definition selectAll :: "env \<Rightarrow> world \<Rightarrow> world \<Rightarrow> bool \<Rightarrow> webview \<Rightarrow> webview \<times> effect list" where
  "selectAll e w w' forceSelect s =
     (let (jobs, p, effs) = getSlurmJobs w (slurmJobProvider s);
          s1 = s\<lparr>slurmJobProvider := p\<rparr>;
          visibleJobs = getVisibleJobs s1 jobs;
          s2 = (if forceSelect
                then s1\<lparr>selectedJobs := foldl (\<lambda>S j. set_add S (jobId j)) (selectedJobs s1) visibleJobs\<rparr>
                else s1\<lparr>selectedJobs := []\<rparr>);
          (s3, effs') = updateView e w' s2
      in (s3, effs @ effs'))"

definition clearSelection :: "env \<Rightarrow> world \<Rightarrow> webview \<Rightarrow> webview \<times> effect list" where
  "clearSelection e w' s = updateView e w' (s\<lparr>selectedJobs := []\<rparr>)"

text \<open>
  \<open>handleAction\<close>. The first world answers the poll of the handler itself, the second
  the poll of the \<open>updateView\<close> that ends it.
\<close>

definition handleAction ::
  "env \<Rightarrow> world \<Rightarrow> world \<Rightarrow> string \<Rightarrow> string \<Rightarrow> webview \<Rightarrow> webview \<times> effect list" where
  "handleAction e w w' action jid s =
     (let (jobs, p, effs) = getSlurmJobs w (slurmJobProvider s);
          s1 = s\<lparr>slurmJobProvider := p\<rparr>
      in case find (\<lambda>j. jobId j = jid) jobs of
           None \<Rightarrow> (s1, effs)
         | Some job \<Rightarrow>
            (if action = ''attach'' then
               (if status job \<noteq> ''RUNNING''
                then (s1, effs @ [ShowWarningMessage ''Can only attach to running jobs''])
                else (s1, effs @ [CreateTerminal (''Job '' @ jobId job @ '' Output'')
                                    (''sattach '' @ jobId job @ ''.0'')]))
             else if action = ''ssh'' then
               (if nodelist job = [] \<or> nodelist job = ''(None)''
                then (s1, effs @ [ShowWarningMessage ''No nodes allocated for this job yet''])
                else (s1, effs @ [ExecuteCommand ''vscode.openFolder''
                        (''vscode-remote://ssh-remote+''
                         @ (case js_split CHR '','' (nodelist job) of [] \<Rightarrow> [] | n # _ \<Rightarrow> n)
                         @ ''/'')]))
             else if action = ''peek'' then
               (s1, effs @ [OutputChannel (''Job '' @ jobId job)
                  (''JobId='' @ jobId job @ [CHR 0x0A] @ ''Name='' @ name job @ [CHR 0x0A]
                   @ ''Status='' @ status job @ [CHR 0x0A] @ ''Nodes='' @ nodelist job)])
             else if action = ''kill'' then
               (let (p2, effs2) = setJobToConfirm (jobId job) (slurmJobProvider s1);
                    (s3, effs3) = updateView e w' (s1\<lparr>slurmJobProvider := p2\<rparr>)
                in (s3, effs @ effs2 @ effs3))
             else if action = ''confirmKill'' then
               (let (p2, effs2) = clearJobToConfirm (jobId job) (slurmJobProvider s1);
                    (s3, effs3) = updateView e w' (s1\<lparr>slurmJobProvider := p2\<rparr>)
                in (s3, effs @ [ShowInformationMessage (''[DEV] Would kill job '' @ jobId job)]
                          @ effs2 @ effs3))
             else if action = ''cancelKill'' then
               (let (p2, effs2) = clearJobToConfirm (jobId job) (slurmJobProvider s1);
                    (s3, effs3) = updateView e w' (s1\<lparr>slurmJobProvider := p2\<rparr>)
                in (s3, effs @ effs2 @ effs3))
             else if action = ''monitor'' then
               (if set_has (monitoredJobs s1) jid then
                  (let (s3, effs3) = updateView e w'
                         (s1\<lparr>monitoredJobs := set_delete (monitoredJobs s1) jid\<rparr>)
                   in (s3, effs @ [ShowInformationMessage
                         (''Stopped monitoring job '' @ name job @ '' ('' @ jid @ '')'')] @ effs3))
                else
                  (let (s3, effs3) = updateView e w'
                         (s1\<lparr>monitoredJobs := set_add (monitoredJobs s1) jid\<rparr>)
                   in (s3, effs @ [ShowInformationMessage
                         (''Started monitoring job '' @ name job @ '' ('' @ jid @ '')'')] @ effs3)))
             else if action = ''viewOutput'' then
               (s1, effs @ [OpenFile (''slurm-'' @ jobId job @ ''.out'')])
             else if action = ''viewError'' then
               (s1, effs @ [OpenFile (''slurm-'' @ jobId job @ ''.err'')])
             else (s1, effs)))"

text \<open>
  The messages of the page. \<open>forceSelect\<close> is absent from the message of a checkbox
  and reads as false there. \<open>onDidReceiveMessage\<close> is one handler taken from the
  message to the end of the \<open>updateView\<close> that it starts, with the polls it makes
  run as single calls; the source does not await that \<open>updateView\<close>, so this is the
  course of the handler when no other message is handled before its polls have
  returned. The fields of the page that the handler itself assigns do not depend on
  that.
\<close>

datatype message =
    RegexEnter string
  | RegexChange string
  | ToggleSelection string bool
  | SelectAll bool
  | ClearSelection
  | KillSelected
  | ConfirmKillAll
  | CancelKillAll
  | MonitorSelected
  | Action string string
  | TogglePastJobs
  | ToggleScheduledJobs
  | OpenSettings

definition onDidReceiveMessage ::
  "env \<Rightarrow> world \<Rightarrow> world \<Rightarrow> message \<Rightarrow> webview \<Rightarrow> webview \<times> effect list" where
  "onDidReceiveMessage e w w' m s =
     (case m of
        RegexEnter v \<Rightarrow>
          (if v = [] then updateView e w' (s\<lparr>highlightRegex := None\<rparr>)
           else (case RegExp e v ''i'' of
                   None \<Rightarrow> (s, [])
                 | Some regex \<Rightarrow>
                     (let (jobs, p, effs) = getSlurmJobs w (slurmJobProvider s);
                          s1 = s\<lparr>slurmJobProvider := p\<rparr>;
                          visibleJobs = getVisibleJobs s1 jobs;
                          s2 = s1\<lparr>selectedJobs := bulkToggle regex visibleJobs (selectedJobs s1),
                                  highlightRegex := None\<rparr>;
                          (s3, effs') = updateView e w' s2
                      in (s3, effs @ effs'))))
      | RegexChange v \<Rightarrow>
          (if v = [] then updateView e w' (s\<lparr>highlightRegex := None\<rparr>)
           else (case RegExp e v ''i'' of
                   None \<Rightarrow> (s, [])
                 | Some regex \<Rightarrow> updateView e w' (s\<lparr>highlightRegex := Some regex\<rparr>)))
      | ToggleSelection jid forceSelect \<Rightarrow>
          updateView e w'
            (if forceSelect then s\<lparr>selectedJobs := set_add (selectedJobs s) jid\<rparr>
             else if set_has (selectedJobs s) jid
             then s\<lparr>selectedJobs := set_delete (selectedJobs s) jid\<rparr>
             else s\<lparr>selectedJobs := set_add (selectedJobs s) jid\<rparr>)
      | SelectAll forceSelect \<Rightarrow> selectAll e w w' forceSelect s
      | ClearSelection \<Rightarrow> clearSelection e w' s
      | KillSelected \<Rightarrow>
          (if selectedJobs s = [] then (s, [ShowWarningMessage ''No jobs selected''])
           else updateView e w' (s\<lparr>isConfirmingKillAll := True\<rparr>))
      | ConfirmKillAll \<Rightarrow>
          (let jobsToKill = selectedJobs s in
           if jobsToKill = [] then (s, [ShowWarningMessage ''No jobs selected''])
           else
             (let (s', effs) = updateView e w' (s\<lparr>selectedJobs := [], isConfirmingKillAll := False\<rparr>)
              in (s', ShowInformationMessage (''[DEV] Would kill jobs '' @ js_join '' '' jobsToKill)
                      # effs)))
      | CancelKillAll \<Rightarrow> updateView e w' (s\<lparr>isConfirmingKillAll := False\<rparr>)
      | MonitorSelected \<Rightarrow>
          (let sel = selectedJobs s; n = length sel in
           if sel = [] then (s, [ShowWarningMessage ''No jobs selected''])
           else if list_all (set_has (monitoredJobs s)) sel then
             (let (s', effs) = updateView e w'
                    (s\<lparr>monitoredJobs := foldl set_delete (monitoredJobs s) sel\<rparr>)
              in (s', ShowInformationMessage
                        (''Stopped monitoring '' @ showNat n @ '' selected jobs'') # effs))
           else
             (let (s', effs) = updateView e w'
                    (s\<lparr>monitoredJobs := foldl set_add (monitoredJobs s) sel\<rparr>)
              in (s', ShowInformationMessage
                        (''Started monitoring '' @ showNat n @ '' selected jobs'') # effs)))
      | Action action jid \<Rightarrow> handleAction e w w' action jid s
      | TogglePastJobs \<Rightarrow> updateView e w' (s\<lparr>isPastJobsExpanded := \<not> isPastJobsExpanded s\<rparr>)
      | ToggleScheduledJobs \<Rightarrow>
          updateView e w' (s\<lparr>isScheduledJobsExpanded := \<not> isScheduledJobsExpanded s\<rparr>)
      | OpenSettings \<Rightarrow>
          (s, [ExecuteCommand ''workbench.action.openSettings'' ''@ext:slurm-job-manager'']))"

definition resolveWebviewView :: "env \<Rightarrow> world \<Rightarrow> webview \<Rightarrow> webview \<times> effect list" where
  "resolveWebviewView e w s = updateView e w (s\<lparr>viewResolved := True\<rparr>)"

text \<open>The two providers as \<open>activate\<close> creates them.\<close>

definition newProvider :: provider where
  "newProvider = \<lparr> jobsToConfirm = [], filterRegex = None, lastKnownJobs = [], notifiedJobs = [] \<rparr>"

definition newWebview :: webview where
  "newWebview = \<lparr> viewResolved = False, slurmJobProvider = newProvider, selectedJobs = [],
     monitoredJobs = [], highlightRegex = None, isConfirmingKillAll = False,
     isPastJobsExpanded = False, isScheduledJobsExpanded = False \<rparr>"

section \<open>A platform and a queue for the examples\<close>

text \<open>
  The theorems below hold for every platform. Their examples run on this one. On a
  pattern of letters and digits \<open>RegExp\<close> searches the pattern as a substring, with
  the case of letters ignored under the flag \<open>i\<close>; the pattern \<open>(\<close> is a syntax
  error. \<open>sampleRegExp\<close> is \<open>RegExp\<close> on these patterns, and the examples use no
  other. \<open>sampleCompare\<close> compares byte by byte, as \<open>localeCompare\<close> does on words of
  lower-case letters.
\<close>

definition sampleRegExp :: "string \<Rightarrow> string \<Rightarrow> regexp option" where
  "sampleRegExp pat flags =
     (if pat = ''('' then None
      else if flags = ''i'' then Some (\<lambda>s. hasSubstring (toLowerCase pat) (toLowerCase s))
      else Some (\<lambda>s. hasSubstring pat s))"

fun sampleCompare :: "string \<Rightarrow> string \<Rightarrow> int" where
  "sampleCompare [] [] = 0"
| "sampleCompare [] (y # ys) = - 1"
| "sampleCompare (x # xs) [] = 1"
| "sampleCompare (x # xs) (y # ys) =
     (if (of_char x :: nat) < of_char y then - 1
      else if (of_char y :: nat) < of_char x then 1
      else sampleCompare xs ys)"

definition sampleEnv :: env where
  "sampleEnv = \<lparr> RegExp = sampleRegExp, localeCompare = sampleCompare, jobHistorySize = 25 \<rparr>"

text \<open>
  A world without Slurm, and a world in which \<open>squeue\<close> prints the given text and
  \<open>sacct\<close> answers \<open>FAILED\<close> for every job.
\<close>

definition noSlurm :: world where
  "noSlurm = (\<lambda>command. Rejected)"

definition queue :: "string \<Rightarrow> world" where
  "queue out =
     (\<lambda>command. if command = ''squeue --version'' then Resolved ''slurm 23.02.6''
                 else if command = squeueCommand then Resolved out
                 else Resolved ''FAILED'')"

definition mkJob :: "string \<Rightarrow> string \<Rightarrow> string \<Rightarrow> job" where
  "mkJob i n st = \<lparr> name = n, jobId = i, status = st, nodelist = ''node1'',
     runningTime = ''00:01:00'', startTime = ''2024-01-01T00:00:00'' \<rparr>"

definition resolved :: webview where
  "resolved = newWebview\<lparr>viewResolved := True\<rparr>"

section \<open>The terminal script\<close>


text \<open>
  \<open>[[ s =~ $pattern ]]\<close> matches \<open>s\<close> against the pattern as a POSIX extended regular
  expression, in the case of the letters as they are (the script never sets
  \<open>nocasematch\<close>). The matcher is the platform's: \<open>None\<close> is a pattern that does not
  compile, for which the test is false.
\<close>

definition regex_match :: "(string \<Rightarrow> regexp option) \<Rightarrow> string \<Rightarrow> string \<Rightarrow> bool" where
  "regex_match ere s pattern = (case ere pattern of None \<Rightarrow> False | Some r \<Rightarrow> r s)"


record terminal =
  jobs_data :: "string list"
  selected_jobs :: "string list"
  filter_mode :: bool
  filter_text :: string
  filtered_jobs :: "string list"
  cursor_pos :: nat
  selected_index :: int
  entered_regex_with_down :: bool

text \<open>\<open>apply_filter\<close>: defined by the script and called nowhere in it.\<close>

definition apply_filter :: "(string \<Rightarrow> regexp option) \<Rightarrow> terminal \<Rightarrow> terminal" where
  "apply_filter ere t =
     (if filter_text t = [] then t\<lparr>filtered_jobs := jobs_data t\<rparr>
      else t\<lparr>filtered_jobs := filter (\<lambda>job. regex_match ere job (filter_text t)) (jobs_data t)\<rparr>)"






section \<open>Reading the effects\<close>

text \<open>
  The keys of the completion notifications among some effects, in order.
\<close>

fun notifiedKeys :: "effect list \<Rightarrow> string list" where
  "notifiedKeys [] = []"
| "notifiedKeys (NotifyCompletion k m # es) = k # notifiedKeys es"
| "notifiedKeys (e # es) = notifiedKeys es"

text \<open>
  What a call that runs alone does with the notified set \<open>N\<close>: the keys it notifies are
  pairwise different, none of them was in \<open>N\<close>, all of them are in the set \<open>N'\<close>
  afterwards, and nothing has left the set.
\<close>

definition keysOK :: "str_set \<Rightarrow> string list \<Rightarrow> str_set \<Rightarrow> bool" where
  "keysOK N ks N' \<longleftrightarrow>
     distinct ks \<and> set ks \<inter> set N = {} \<and> set ks \<subseteq> set N' \<and> set N \<subseteq> set N'"

text \<open>
  The messages by which the operator takes ids out of the selection: a bulk toggle, a
  click on a selected job, deselect all, clear, and the confirmed batch kill.
\<close>

fun deselecting :: "message \<Rightarrow> bool" where
  "deselecting (RegexEnter v) = True"
| "deselecting (ToggleSelection jid forceSelect) = (\<not> forceSelect)"
| "deselecting (SelectAll forceSelect) = (\<not> forceSelect)"
| "deselecting ClearSelection = True"
| "deselecting ConfirmKillAll = True"
| "deselecting m = False"

text \<open>
  What the extension does for the operator among some effects: the messages shown, the
  terminals, commands, channels and files opened. Left out are the completion
  notifications of the polls, the events of the tree and the renderings of the page.
\<close>

fun actions :: "effect list \<Rightarrow> effect list" where
  "actions [] = []"
| "actions (NotifyCompletion k m # es) = actions es"
| "actions (TreeDataChanged # es) = actions es"
| "actions (Render v # es) = actions es"
| "actions (e # es) = e # actions es"

text \<open>The texts of the information messages among some effects, in order.\<close>

fun informationMessages :: "effect list \<Rightarrow> string list" where
  "informationMessages [] = []"
| "informationMessages (ShowInformationMessage m # es) = m # informationMessages es"
| "informationMessages (NotifyCompletion k m # es) = m # informationMessages es"
| "informationMessages (e # es) = informationMessages es"

section \<open>What a poll and a redraw leave alone\<close>

lemma getSlurmJobs_frame:
  "jobsToConfirm (fst (snd (getSlurmJobs w p))) = jobsToConfirm p"
  "filterRegex (fst (snd (getSlurmJobs w p))) = filterRegex p"
  by (auto simp: getSlurmJobs_def Let_def split: option.splits prod.splits)

lemma updateView_state:
  "fst (updateView e w s) =
     (if viewResolved s
      then s\<lparr>slurmJobProvider := fst (snd (getSlurmJobs w (slurmJobProvider s)))\<rparr>
      else s)"
  by (simp add: updateView_def Let_def split: prod.splits)

lemma updateView_fields [simp]:
  "selectedJobs (fst (updateView e w s)) = selectedJobs s"
  "monitoredJobs (fst (updateView e w s)) = monitoredJobs s"
  "isConfirmingKillAll (fst (updateView e w s)) = isConfirmingKillAll s"
  "isPastJobsExpanded (fst (updateView e w s)) = isPastJobsExpanded s"
  "isScheduledJobsExpanded (fst (updateView e w s)) = isScheduledJobsExpanded s"
  "viewResolved (fst (updateView e w s)) = viewResolved s"
  "highlightRegex (fst (updateView e w s)) = highlightRegex s"
  "jobsToConfirm (slurmJobProvider (fst (updateView e w s))) = jobsToConfirm (slurmJobProvider s)"
  by (simp_all add: updateView_state getSlurmJobs_frame)

lemma set_set_add [simp]: "set (set_add S x) = insert x (set S)"
  by (auto simp: set_add_def)

lemma set_set_delete [simp]: "set (set_delete S x) = set S - {x}"
  by (auto simp: set_delete_def)

lemma set_add_member: "x \<in> set S \<Longrightarrow> set_add S x = S"
  by (simp add: set_add_def)

lemma getVisibleJobs_provider [simp]:
  "getVisibleJobs (s\<lparr>slurmJobProvider := p\<rparr>) jobs = getVisibleJobs s jobs"
  by (simp add: getVisibleJobs_def)

lemma handleAction_selectedJobs [simp]:
  "selectedJobs (fst (handleAction e w w' a jid s)) = selectedJobs s"
  by (simp add: handleAction_def Let_def case_prod_beta split: option.splits)

subsection \<open>The effects of a poll\<close>

lemma checkCompleted_effects:
  "checkCompleted w cur entries (N, J, E) = (N', J', E') \<Longrightarrow> x \<in> set E' \<Longrightarrow>
     x \<in> set E \<or> (\<exists>k m. x = NotifyCompletion k m)"
proof (induction entries arbitrary: N J E)
  case Nil
  then show ?case by simp
next
  case (Cons a entries)
  obtain jid lastJob where a: "a = (jid, lastJob)" by (cases a)
  from Cons.prems a Cons.IH show ?case
    by (fastforce simp: Let_def split: if_splits)
qed

lemma getSlurmJobs_effects:
  "x \<in> set (snd (snd (getSlurmJobs w p))) \<Longrightarrow> \<exists>k m. x = NotifyCompletion k m"
  by (auto simp: getSlurmJobs_def Let_def split: if_splits option.splits prod.splits
        dest: checkCompleted_effects)

lemma updateView_effects:
  "x \<in> set (snd (updateView e w s)) \<Longrightarrow> (\<exists>k m. x = NotifyCompletion k m) \<or> (\<exists>v. x = Render v)"
  by (auto simp: updateView_def Let_def case_prod_beta split: if_splits dest: getSlurmJobs_effects)

lemma no_info_poll [simp]: "ShowInformationMessage m \<notin> set (snd (snd (getSlurmJobs w p)))"
  using getSlurmJobs_effects by blast

lemma no_info_updateView [simp]: "ShowInformationMessage m \<notin> set (snd (updateView e w s))"
  using updateView_effects by blast

lemma actions_append [simp]: "actions (xs @ ys) = actions xs @ actions ys"
  by (induction xs rule: actions.induct) auto

lemma actions_silent:
  "(\<And>x. x \<in> set xs \<Longrightarrow> (\<exists>k m. x = NotifyCompletion k m) \<or> (\<exists>v. x = Render v)) \<Longrightarrow>
   actions xs = []"
  by (induction xs rule: actions.induct) auto

lemma actions_poll [simp]: "actions (snd (snd (getSlurmJobs w p))) = []"
  by (rule actions_silent) (use getSlurmJobs_effects in blast)

lemma actions_updateView [simp]: "actions (snd (updateView e w s)) = []"
  by (rule actions_silent) (use updateView_effects in blast)

section \<open>Batch kill\<close>

text \<open>
  C1, as the code has it. With a selection that is not empty, arming (\<open>killSelected\<close>)
  sets the flag, records no target, leaves the selection as it is and does nothing
  else for the operator; \<open>confirmKillAll\<close> commits the ids that are in the selection
  when it is handled, in insertion order, then empties the selection and clears the
  flag. So a change of the selection between arming and confirming changes what is
  committed. With an empty selection either message shows the warning
  \<open>No jobs selected\<close> and changes nothing.
\<close>

theorem confirmKillAll_commits_current_selection:
  "(selectedJobs s \<noteq> [] \<longrightarrow>
       selectedJobs (fst (onDidReceiveMessage e w w' KillSelected s)) = selectedJobs s
     \<and> isConfirmingKillAll (fst (onDidReceiveMessage e w w' KillSelected s))
     \<and> actions (snd (onDidReceiveMessage e w w' KillSelected s)) = []
     \<and> (\<exists>effs. snd (onDidReceiveMessage e w w' ConfirmKillAll s) =
            ShowInformationMessage (''[DEV] Would kill jobs '' @ js_join '' '' (selectedJobs s))
              # effs)
     \<and> actions (snd (onDidReceiveMessage e w w' ConfirmKillAll s)) =
          [ShowInformationMessage (''[DEV] Would kill jobs '' @ js_join '' '' (selectedJobs s))]
     \<and> selectedJobs (fst (onDidReceiveMessage e w w' ConfirmKillAll s)) = []
     \<and> \<not> isConfirmingKillAll (fst (onDidReceiveMessage e w w' ConfirmKillAll s)))
   \<and> (selectedJobs s = [] \<longrightarrow>
       onDidReceiveMessage e w w' KillSelected s = (s, [ShowWarningMessage ''No jobs selected''])
     \<and> onDidReceiveMessage e w w' ConfirmKillAll s
          = (s, [ShowWarningMessage ''No jobs selected'']))"
  by (simp add: onDidReceiveMessage_def Let_def case_prod_beta)

theorem confirmKillAll_commits_current_selection_witness:
  "selectedJobs (resolved\<lparr>selectedJobs := [''1'', ''2'']\<rparr>) \<noteq> []
   \<and> (\<exists>effs. snd (onDidReceiveMessage sampleEnv noSlurm noSlurm ConfirmKillAll
                     (resolved\<lparr>selectedJobs := [''1'', ''2'']\<rparr>)) =
          ShowInformationMessage ''[DEV] Would kill jobs 1 2'' # effs)
   \<and> selectedJobs resolved = []
   \<and> onDidReceiveMessage sampleEnv noSlurm noSlurm ConfirmKillAll resolved
        = (resolved, [ShowWarningMessage ''No jobs selected''])"
proof -
  have e: "selectedJobs resolved = []"
    by (simp add: resolved_def newWebview_def)
  show ?thesis
    using e
      confirmKillAll_commits_current_selection
        [where s = "resolved\<lparr>selectedJobs := [''1'', ''2'']\<rparr>" and e = sampleEnv
           and w = noSlurm and w' = noSlurm]
      confirmKillAll_commits_current_selection
        [where s = resolved and e = sampleEnv and w = noSlurm and w' = noSlurm]
    by simp
qed

text \<open>
  C1 as stated fails: the batch is armed with the selection \<open>1\<close>, job \<open>2\<close> is
  selected before the confirmation, and the confirmation commits \<open>1 2\<close>.
\<close>

theorem batch_targets_not_frozen:
  "selectedJobs (fst (onDidReceiveMessage sampleEnv noSlurm noSlurm KillSelected
      (resolved\<lparr>selectedJobs := [''1'']\<rparr>))) = [''1'']
   \<and> isConfirmingKillAll (fst (onDidReceiveMessage sampleEnv noSlurm noSlurm KillSelected
      (resolved\<lparr>selectedJobs := [''1'']\<rparr>)))
   \<and> informationMessages (snd (onDidReceiveMessage sampleEnv noSlurm noSlurm ConfirmKillAll
        (fst (onDidReceiveMessage sampleEnv noSlurm noSlurm (ToggleSelection ''2'' False)
          (fst (onDidReceiveMessage sampleEnv noSlurm noSlurm KillSelected
            (resolved\<lparr>selectedJobs := [''1'']\<rparr>)))))))
       = [''[DEV] Would kill jobs 1 2'']"
  by code_simp

section \<open>Invalid patterns\<close>

text \<open>
  C3, as the code has it. A pattern that does not compile leaves the state exactly as
  it was, in the two handlers of the page and in \<open>setFilter\<close>. \<open>setFilter\<close> shows the
  error message \<open>Invalid regex pattern\<close>; the handlers \<open>regexChange\<close> and
  \<open>regexEnter\<close> ignore the pattern and show nothing.
\<close>

theorem invalid_pattern_keeps_state:
  "pat \<noteq> [] \<Longrightarrow> RegExp e pat ''i'' = None \<Longrightarrow>
     onDidReceiveMessage e w w' (RegexChange pat) s = (s, [])
   \<and> onDidReceiveMessage e w w' (RegexEnter pat) s = (s, [])
   \<and> setFilter e (Some pat) p = (p, [ShowErrorMessage ''Invalid regex pattern''])"
  by (simp add: onDidReceiveMessage_def setFilter_def)

theorem invalid_pattern_keeps_state_witness:
  "''('' \<noteq> [] \<and> RegExp sampleEnv ''('' ''i'' = None
   \<and> onDidReceiveMessage sampleEnv noSlurm noSlurm (RegexEnter ''('')
        (resolved\<lparr>selectedJobs := [''7'']\<rparr>) = (resolved\<lparr>selectedJobs := [''7'']\<rparr>, [])
   \<and> setFilter sampleEnv (Some ''('') newProvider
        = (newProvider, [ShowErrorMessage ''Invalid regex pattern''])"
  using invalid_pattern_keeps_state
          [of "''(''" sampleEnv noSlurm noSlurm "resolved\<lparr>selectedJobs := [''7'']\<rparr>" newProvider]
  by (simp add: sampleEnv_def sampleRegExp_def)

text \<open>
  C3 as stated fails on the page: the invalid pattern \<open>(\<close> typed into the filter
  field produces no effect at all, so no error is shown.
\<close>

theorem invalid_pattern_silent_on_page:
  "snd (onDidReceiveMessage sampleEnv noSlurm noSlurm (RegexChange ''('')
          (resolved\<lparr>selectedJobs := [''7'']\<rparr>)) = []"
  by (simp add: onDidReceiveMessage_def sampleEnv_def sampleRegExp_def)

section \<open>Single kill\<close>

text \<open>
  C8, as the code has it. \<open>handleAction\<close> looks the job up in a fresh poll. For a job
  that the poll returns: \<open>kill\<close> adds the id to the pending set, which changes
  nothing when the id is pending already, and does nothing for the operator;
  \<open>confirmKill\<close> dispatches the kill, and nothing else, and leaves the id not
  pending, whether the id was pending or not, so there is no failure \<open>NotPending\<close>;
  \<open>cancelKill\<close> leaves the id not pending and does nothing for the operator. For an
  id that the poll does not return, every action leaves the pending set as it is and
  does nothing for the operator. What a handler does for the operator is read off its
  effects by \<open>actions\<close>: every effect but the notifications of the polls, the events
  of the tree and the renderings.
\<close>

theorem kill_confirmation_steps:
  "(find (\<lambda>j. jobId j = jid) (fst (getSlurmJobs w (slurmJobProvider s))) = Some job \<longrightarrow>
      jobsToConfirm (slurmJobProvider (fst (handleAction e w w' ''kill'' jid s)))
        = set_add (jobsToConfirm (slurmJobProvider s)) jid
    \<and> (jid \<in> set (jobsToConfirm (slurmJobProvider s)) \<longrightarrow>
         jobsToConfirm (slurmJobProvider (fst (handleAction e w w' ''kill'' jid s)))
           = jobsToConfirm (slurmJobProvider s))
    \<and> actions (snd (handleAction e w w' ''kill'' jid s)) = []
    \<and> actions (snd (handleAction e w w' ''confirmKill'' jid s))
        = [ShowInformationMessage (''[DEV] Would kill job '' @ jid)]
    \<and> jobsToConfirm (slurmJobProvider (fst (handleAction e w w' ''confirmKill'' jid s)))
        = set_delete (jobsToConfirm (slurmJobProvider s)) jid
    \<and> jid \<notin> set (jobsToConfirm (slurmJobProvider (fst (handleAction e w w' ''confirmKill'' jid s))))
    \<and> actions (snd (handleAction e w w' ''cancelKill'' jid s)) = []
    \<and> jobsToConfirm (slurmJobProvider (fst (handleAction e w w' ''cancelKill'' jid s)))
        = set_delete (jobsToConfirm (slurmJobProvider s)) jid)
   \<and> (find (\<lambda>j. jobId j = jid) (fst (getSlurmJobs w (slurmJobProvider s))) = None \<longrightarrow>
        jobsToConfirm (slurmJobProvider (fst (handleAction e w w' a jid s)))
          = jobsToConfirm (slurmJobProvider s)
      \<and> actions (snd (handleAction e w w' a jid s)) = [])"
proof -
  have found: "jobId job = jid"
    if "find (\<lambda>j. jobId j = jid) (fst (getSlurmJobs w (slurmJobProvider s))) = Some job"
    using that by (auto simp: find_Some_iff)
  show ?thesis
    by (auto simp: handleAction_def Let_def case_prod_beta setJobToConfirm_def
          clearJobToConfirm_def getSlurmJobs_frame set_add_member dest!: found)
qed

theorem kill_confirmation_steps_witness:
  "find (\<lambda>j. jobId j = ''5'')
     (fst (getSlurmJobs (queue ''5|train|RUNNING|node1|1:00|t'') (slurmJobProvider resolved)))
     = Some \<lparr> name = ''train'', jobId = ''5'', status = ''RUNNING'', nodelist = ''node1'',
              runningTime = ''00:1:00'', startTime = ''t'' \<rparr>
   \<and> jobsToConfirm (slurmJobProvider (fst (handleAction sampleEnv
        (queue ''5|train|RUNNING|node1|1:00|t'') noSlurm ''kill'' ''5'' resolved))) = [''5'']
   \<and> actions (snd (handleAction sampleEnv
        (queue ''5|train|RUNNING|node1|1:00|t'') noSlurm ''kill'' ''5'' resolved)) = []
   \<and> actions (snd (handleAction sampleEnv
        (queue ''5|train|RUNNING|node1|1:00|t'') noSlurm ''confirmKill'' ''5'' resolved))
       = [ShowInformationMessage ''[DEV] Would kill job 5'']
   \<and> find (\<lambda>j. jobId j = ''6'')
       (fst (getSlurmJobs (queue ''5|train|RUNNING|node1|1:00|t'') (slurmJobProvider resolved)))
       = None
   \<and> actions (snd (handleAction sampleEnv
        (queue ''5|train|RUNNING|node1|1:00|t'') noSlurm ''confirmKill'' ''6'' resolved)) = []"
proof -
  have f: "find (\<lambda>j. jobId j = ''5'')
     (fst (getSlurmJobs (queue ''5|train|RUNNING|node1|1:00|t'') (slurmJobProvider resolved)))
     = Some \<lparr> name = ''train'', jobId = ''5'', status = ''RUNNING'', nodelist = ''node1'',
              runningTime = ''00:1:00'', startTime = ''t'' \<rparr>"
    by code_simp
  have g: "find (\<lambda>j. jobId j = ''6'')
       (fst (getSlurmJobs (queue ''5|train|RUNNING|node1|1:00|t'') (slurmJobProvider resolved)))
       = None"
    by code_simp
  have p: "jobsToConfirm (slurmJobProvider resolved) = []"
    by (simp add: resolved_def newWebview_def newProvider_def)
  show ?thesis
    using f g p
      kill_confirmation_steps
        [where jid = "''5''" and w = "queue ''5|train|RUNNING|node1|1:00|t''" and s = resolved
           and job = "\<lparr> name = ''train'', jobId = ''5'', status = ''RUNNING'',
              nodelist = ''node1'', runningTime = ''00:1:00'', startTime = ''t'' \<rparr>"
           and e = sampleEnv and w' = noSlurm]
      kill_confirmation_steps
        [where jid = "''6''" and w = "queue ''5|train|RUNNING|node1|1:00|t''" and s = resolved
           and e = sampleEnv and w' = noSlurm and a = "''confirmKill''"]
    by (simp add: set_add_def)
qed

text \<open>
  C8 as stated fails: \<open>confirmKill\<close> for job \<open>5\<close>, which was never requested and
  is not pending, dispatches the kill.
\<close>

theorem confirm_without_request_dispatches:
  "jobsToConfirm (slurmJobProvider resolved) = []
   \<and> informationMessages (snd (onDidReceiveMessage sampleEnv
        (queue ''5|train|RUNNING|node1|1:00|t'') (queue ''5|train|RUNNING|node1|1:00|t'')
        (Action ''confirmKill'' ''5'') resolved)) = [''[DEV] Would kill job 5'']"
  by code_simp

section \<open>Selection\<close>

lemma set_foldl_delete:
  "set (foldl (\<lambda>S j. set_delete S (jobId j)) S M) = set S - set (map jobId M)"
  by (induction M arbitrary: S) auto

lemma set_foldl_add:
  "set (foldl (\<lambda>S j. set_add S (jobId j)) S M) = set S \<union> set (map jobId M)"
  by (induction M arbitrary: S) auto

lemma list_all_has:
  "list_all (\<lambda>j. set_has S (jobId j)) M \<longleftrightarrow> set (map jobId M) \<subseteq> set S"
  by (auto simp: list_all_iff set_has_def)

lemma set_bulkToggle:
  "set (bulkToggle r V S) =
     (if set (map jobId (filter (\<lambda>j. r (name j)) V)) \<subseteq> set S
      then set S - set (map jobId (filter (\<lambda>j. r (name j)) V))
      else set S \<union> set (map jobId (filter (\<lambda>j. r (name j)) V)))"
  by (simp add: bulkToggle_def Let_def list_all_has set_foldl_delete set_foldl_add)

text \<open>
  C6, as the code has it. One bulk toggle removes the ids of the matching visible jobs
  from the selection when all of them are selected, and adds them all otherwise. Two
  bulk toggles in a row give back the selection they started from when all matching
  jobs were selected, and the selection without the matching jobs otherwise: that is
  the starting selection only if no matching job was selected. The handler
  \<open>regexEnter\<close> sets the selection to the bulk toggle over the visible jobs of its
  poll.
\<close>

theorem bulkToggle_all_or_nothing:
  "set (bulkToggle r V S) =
     (if set (map jobId (filter (\<lambda>j. r (name j)) V)) \<subseteq> set S
      then set S - set (map jobId (filter (\<lambda>j. r (name j)) V))
      else set S \<union> set (map jobId (filter (\<lambda>j. r (name j)) V)))
   \<and> set (bulkToggle r V (bulkToggle r V S)) =
     (if set (map jobId (filter (\<lambda>j. r (name j)) V)) \<subseteq> set S then set S
      else set S - set (map jobId (filter (\<lambda>j. r (name j)) V)))
   \<and> (v \<noteq> [] \<and> RegExp e v ''i'' = Some r \<longrightarrow>
        selectedJobs (fst (onDidReceiveMessage e w w' (RegexEnter v) s)) =
          bulkToggle r (getVisibleJobs s (fst (getSlurmJobs w (slurmJobProvider s))))
            (selectedJobs s))"
proof -
  let ?ids = "set (map jobId (filter (\<lambda>j. r (name j)) V))"
  have one: "set (bulkToggle r V S) =
     (if ?ids \<subseteq> set S then set S - ?ids else set S \<union> ?ids)"
    by (rule set_bulkToggle)
  have two: "set (bulkToggle r V (bulkToggle r V S)) =
     (if ?ids \<subseteq> set S then set S else set S - ?ids)"
  proof (cases "?ids \<subseteq> set S")
    case True
    then have "set (bulkToggle r V S) = set S - ?ids" by (simp add: one)
    then show ?thesis using True
      by (simp only: set_bulkToggle [of r V "bulkToggle r V S"]) auto
  next
    case False
    then have "set (bulkToggle r V S) = set S \<union> ?ids" by (simp add: one)
    then show ?thesis using False
      by (simp only: set_bulkToggle [of r V "bulkToggle r V S"]) auto
  qed
  have three: "v \<noteq> [] \<and> RegExp e v ''i'' = Some r \<longrightarrow>
        selectedJobs (fst (onDidReceiveMessage e w w' (RegexEnter v) s)) =
          bulkToggle r (getVisibleJobs s (fst (getSlurmJobs w (slurmJobProvider s))))
            (selectedJobs s)"
    by (simp add: onDidReceiveMessage_def Let_def case_prod_beta)
  from one two three show ?thesis by blast
qed

theorem bulkToggle_all_or_nothing_witness:
  "''train'' \<noteq> []
   \<and> RegExp sampleEnv ''train'' ''i'' = Some (\<lambda>s. hasSubstring ''train'' (toLowerCase s))
   \<and> set (bulkToggle (\<lambda>s. hasSubstring ''train'' (toLowerCase s))
           [mkJob ''1'' ''train1'' ''RUNNING'', mkJob ''2'' ''Train2'' ''RUNNING'']
           (bulkToggle (\<lambda>s. hasSubstring ''train'' (toLowerCase s))
              [mkJob ''1'' ''train1'' ''RUNNING'', mkJob ''2'' ''Train2'' ''RUNNING'']
              [''1'', ''2'', ''9''])) = set [''1'', ''2'', ''9'']"
proof -
  have c: "RegExp sampleEnv ''train'' ''i'' = Some (\<lambda>s. hasSubstring ''train'' (toLowerCase s))"
    by (simp add: sampleEnv_def sampleRegExp_def toLowerCase_def lowerChar_def)
  have i: "map jobId (filter (\<lambda>j. hasSubstring ''train'' (toLowerCase (name j)))
             [mkJob ''1'' ''train1'' ''RUNNING'', mkJob ''2'' ''Train2'' ''RUNNING''])
           = [''1'', ''2'']"
    by code_simp
  have "set (bulkToggle (\<lambda>s. hasSubstring ''train'' (toLowerCase s))
           [mkJob ''1'' ''train1'' ''RUNNING'', mkJob ''2'' ''Train2'' ''RUNNING'']
           (bulkToggle (\<lambda>s. hasSubstring ''train'' (toLowerCase s))
              [mkJob ''1'' ''train1'' ''RUNNING'', mkJob ''2'' ''Train2'' ''RUNNING'']
              [''1'', ''2'', ''9''])) =
        (if set [''1'', ''2''] \<subseteq> set [''1'', ''2'', ''9''] then set [''1'', ''2'', ''9'']
         else set [''1'', ''2'', ''9''] - set [''1'', ''2''])"
    using bulkToggle_all_or_nothing
      [of "\<lambda>s. hasSubstring ''train'' (toLowerCase s)"
          "[mkJob ''1'' ''train1'' ''RUNNING'', mkJob ''2'' ''Train2'' ''RUNNING'']"
          "[''1'', ''2'', ''9'']"]
    unfolding i by blast
  with c show ?thesis by simp
qed

text \<open>
  C6 as stated fails: with \<open>train1\<close> selected and \<open>train2\<close> not, two bulk toggles
  for \<open>train\<close> leave the selection empty, not \<open>1\<close>.
\<close>

theorem bulkToggle_twice_loses_selection:
  "selectedJobs (fst (onDidReceiveMessage sampleEnv
      (queue (''1|train1|RUNNING|node1|1:00|t'' @ [CHR 0x0A] @ ''2|train2|RUNNING|node1|1:00|t''))
      (queue (''1|train1|RUNNING|node1|1:00|t'' @ [CHR 0x0A] @ ''2|train2|RUNNING|node1|1:00|t''))
      (RegexEnter ''train'')
      (fst (onDidReceiveMessage sampleEnv
         (queue (''1|train1|RUNNING|node1|1:00|t'' @ [CHR 0x0A] @ ''2|train2|RUNNING|node1|1:00|t''))
         (queue (''1|train1|RUNNING|node1|1:00|t'' @ [CHR 0x0A] @ ''2|train2|RUNNING|node1|1:00|t''))
         (RegexEnter ''train'')
         (resolved\<lparr>selectedJobs := [''1'']\<rparr>))))) = []"
  by code_simp

text \<open>
  What \<open>getVisibleJobs\<close> returns: the jobs of the snapshot with status \<open>RUNNING\<close>
  or \<open>COMPLETING\<close> always, those with status \<open>PENDING\<close> exactly when the Scheduled
  section is expanded, those with status \<open>COMPLETED\<close> or \<open>FAILED\<close> exactly when the
  Historical section is expanded, and no job of any other status. It depends on the
  state through the two flags only, and a bulk toggle adds no id but those of visible
  jobs.
\<close>

lemma getVisibleJobs_members:
  "set (getVisibleJobs s jobs) =
     {j \<in> set jobs. status j = ''RUNNING'' \<or> status j = ''COMPLETING''
        \<or> (isScheduledJobsExpanded s \<and> status j = ''PENDING'')
        \<or> (isPastJobsExpanded s \<and> (status j = ''COMPLETED'' \<or> status j = ''FAILED''))}
   \<and> (isScheduledJobsExpanded s = isScheduledJobsExpanded s' \<and>
       isPastJobsExpanded s = isPastJobsExpanded s' \<longrightarrow>
         getVisibleJobs s jobs = getVisibleJobs s' jobs)
   \<and> set (bulkToggle r (getVisibleJobs s jobs) S)
       \<subseteq> set S \<union> set (map jobId (getVisibleJobs s jobs))"
  by (auto simp: getVisibleJobs_def set_bulkToggle split: if_splits)

text \<open>
  C7 at a failing input. The Historical section is expanded and the queue holds a
  running job, \<open>1\<close>, and a cancelled job, \<open>2\<close>. The page shows both, job \<open>2\<close> in
  its Historical section, where \<open>updateView\<close> puts every job that is not running,
  pending or completing. The visible set of \<open>getVisibleJobs\<close> holds job \<open>1\<close> only,
  since of the terminal statuses it takes \<open>COMPLETED\<close> and \<open>FAILED\<close> and no other;
  so \<open>selectAll\<close> selects job \<open>1\<close> only.
\<close>

theorem cancelled_job_shown_but_not_visible:
  "map jobId (shownJobs (renderView sampleEnv (resolved\<lparr>isPastJobsExpanded := True\<rparr>)
       (fst (getSlurmJobs
          (queue (''1|a|RUNNING|node1|1:00|t'' @ [CHR 0x0A] @ ''2|b|CANCELLED|node1|1:00|t''))
          newProvider)))) = [''1'', ''2'']
   \<and> map jobId (getVisibleJobs (resolved\<lparr>isPastJobsExpanded := True\<rparr>)
       (fst (getSlurmJobs
          (queue (''1|a|RUNNING|node1|1:00|t'' @ [CHR 0x0A] @ ''2|b|CANCELLED|node1|1:00|t''))
          newProvider))) = [''1'']
   \<and> selectedJobs (fst (selectAll sampleEnv
        (queue (''1|a|RUNNING|node1|1:00|t'' @ [CHR 0x0A] @ ''2|b|CANCELLED|node1|1:00|t''))
        (queue (''1|a|RUNNING|node1|1:00|t'' @ [CHR 0x0A] @ ''2|b|CANCELLED|node1|1:00|t''))
        True (resolved\<lparr>isPastJobsExpanded := True\<rparr>))) = [''1'']"
  by code_simp

text \<open>
  C9. A poll leaves the selection as it is: \<open>updateView\<close>, the resolution of the view
  and a request of the tree for its children, each of which polls the queue, return
  the selection unchanged, whatever the new snapshot holds. Of the messages, only those
  by which the operator deselects can take an id out of the selection.
\<close>

theorem selection_survives_polling:
  "selectedJobs (fst (updateView e w s)) = selectedJobs s
   \<and> selectedJobs (fst (resolveWebviewView e w s)) = selectedJobs s
   \<and> selectedJobs (s\<lparr>slurmJobProvider := fst (snd (getChildren e w (slurmJobProvider s)))\<rparr>)
       = selectedJobs s
   \<and> selectedJobs (s\<lparr>slurmJobProvider := fst (snd (getSlurmJobs w (slurmJobProvider s)))\<rparr>)
       = selectedJobs s
   \<and> (\<not> deselecting m \<longrightarrow>
        set (selectedJobs s) \<subseteq> set (selectedJobs (fst (onDidReceiveMessage e w w' m s))))"
proof -
  have "\<not> deselecting m \<Longrightarrow>
        set (selectedJobs s) \<subseteq> set (selectedJobs (fst (onDidReceiveMessage e w w' m s)))"
    by (cases m)
       (auto simp: onDidReceiveMessage_def Let_def case_prod_beta selectAll_def
          set_foldl_add split: option.splits)
  then show ?thesis
    by (simp add: resolveWebviewView_def)
qed

theorem selection_survives_polling_witness:
  "\<not> deselecting TogglePastJobs
   \<and> fst (getSlurmJobs (queue ''7|other|RUNNING|node1|1:00|t'') newProvider)
       = [\<lparr> name = ''other'', jobId = ''7'', status = ''RUNNING'', nodelist = ''node1'',
             runningTime = ''00:1:00'', startTime = ''t'' \<rparr>]
   \<and> selectedJobs (fst (updateView sampleEnv (queue ''7|other|RUNNING|node1|1:00|t'')
        (resolved\<lparr>selectedJobs := [''42'']\<rparr>))) = [''42'']
   \<and> ''42'' \<in> set (selectedJobs (fst (onDidReceiveMessage sampleEnv
        (queue ''7|other|RUNNING|node1|1:00|t'') (queue ''7|other|RUNNING|node1|1:00|t'')
        TogglePastJobs (resolved\<lparr>selectedJobs := [''42'']\<rparr>))))"
proof -
  have q: "fst (getSlurmJobs (queue ''7|other|RUNNING|node1|1:00|t'') newProvider)
       = [\<lparr> name = ''other'', jobId = ''7'', status = ''RUNNING'', nodelist = ''node1'',
             runningTime = ''00:1:00'', startTime = ''t'' \<rparr>]"
    by code_simp
  show ?thesis
    using q selection_survives_polling
      [of sampleEnv "queue ''7|other|RUNNING|node1|1:00|t''" "resolved\<lparr>selectedJobs := [''42'']\<rparr>"
          TogglePastJobs "queue ''7|other|RUNNING|node1|1:00|t''"]
    by auto
qed

section \<open>Completion notifications\<close>

lemma notifiedKeys_append [simp]:
  "notifiedKeys (xs @ ys) = notifiedKeys xs @ notifiedKeys ys"
  by (induction xs rule: notifiedKeys.induct) auto

lemma keysOK_Nil [simp]: "keysOK N [] N"
  by (simp add: keysOK_def)

lemma keysOK_append:
  "keysOK N ks N1 \<Longrightarrow> keysOK N1 ks' N2 \<Longrightarrow> keysOK N (ks @ ks') N2"
  unfolding keysOK_def by auto

text \<open>One turn of the loop: what it does to the accumulator before the rest runs.\<close>

lemma checkCompleted_unfold:
  "\<exists>N1 J1 E1 ks.
       notifiedKeys E1 = notifiedKeys E @ ks \<and> keysOK N ks N1
     \<and> (\<not> map_has cur jid \<and> (status lastJob = ''RUNNING'' \<or> status lastJob = ''PENDING'')
          \<longrightarrow> jid \<in> set N1)
     \<and> checkCompleted w cur ((jid, lastJob) # entries) (N, J, E)
         = checkCompleted w cur entries (N1, J1, E1)"
proof -
  let ?P = "\<lambda>N1 J1 E1 ks.
       notifiedKeys E1 = notifiedKeys E @ ks \<and> keysOK N ks N1
     \<and> (\<not> map_has cur jid \<and> (status lastJob = ''RUNNING'' \<or> status lastJob = ''PENDING'')
          \<longrightarrow> jid \<in> set N1)
     \<and> checkCompleted w cur ((jid, lastJob) # entries) (N, J, E)
         = checkCompleted w cur entries (N1, J1, E1)"
  let ?go = "\<not> map_has cur jid \<and> \<not> set_has N jid
              \<and> (status lastJob = ''RUNNING'' \<or> status lastJob = ''PENDING'')"
  let ?out = "executeSlurmCommand w (sacctCommand jid)"
  let ?final = "case js_split CHR 0x0A ?out of [] \<Rightarrow> [] | l # _ \<Rightarrow> js_trim l"
  consider (skip) "\<not> ?go" | (quiet) "?go" "?out = []" | (notify) "?go" "?out \<noteq> []" by blast
  then show ?thesis
  proof cases
    case skip
    then have "checkCompleted w cur ((jid, lastJob) # entries) (N, J, E)
         = checkCompleted w cur entries (N, J, E)" by auto
    moreover have "\<not> map_has cur jid \<and> (status lastJob = ''RUNNING'' \<or> status lastJob = ''PENDING'')
          \<longrightarrow> jid \<in> set N" using skip by (auto simp: set_has_def)
    ultimately have "?P N J E []" by simp
    then show ?thesis by blast
  next
    case quiet
    then have "checkCompleted w cur ((jid, lastJob) # entries) (N, J, E)
         = checkCompleted w cur entries (set_add N jid, J, E)" by (simp add: Let_def)
    then have "?P (set_add N jid) J E []" by (auto simp: keysOK_def)
    then show ?thesis by blast
  next
    case notify
    then have "checkCompleted w cur ((jid, lastJob) # entries) (N, J, E)
         = checkCompleted w cur entries
             (set_add N jid, J @ [lastJob\<lparr>status := ?final\<rparr>],
              E @ [NotifyCompletion jid (completionMessage lastJob jid ?final)])"
      by (simp add: Let_def)
    moreover have "jid \<notin> set N" using notify by (simp add: set_has_def)
    ultimately have "?P (set_add N jid) (J @ [lastJob\<lparr>status := ?final\<rparr>])
                 (E @ [NotifyCompletion jid (completionMessage lastJob jid ?final)]) [jid]"
      by (auto simp: keysOK_def)
    then show ?thesis by blast
  qed
qed

lemma checkCompleted_keys:
  "\<exists>ks. notifiedKeys (snd (snd (checkCompleted w cur entries (N, J, E)))) = notifiedKeys E @ ks
        \<and> keysOK N ks (fst (checkCompleted w cur entries (N, J, E)))"
proof (induction entries arbitrary: N J E)
  case Nil
  show ?case by simp
next
  case (Cons a entries)
  obtain jid lastJob where a: "a = (jid, lastJob)" by (cases a)
  from checkCompleted_unfold [of E N cur jid lastJob w entries J] obtain N1 J1 E1 ks where
    u: "notifiedKeys E1 = notifiedKeys E @ ks" "keysOK N ks N1"
       "checkCompleted w cur (a # entries) (N, J, E) = checkCompleted w cur entries (N1, J1, E1)"
    unfolding a by blast
  from Cons.IH [of N1 J1 E1] obtain ks' where
    r: "notifiedKeys (snd (snd (checkCompleted w cur entries (N1, J1, E1)))) = notifiedKeys E1 @ ks'"
       "keysOK N1 ks' (fst (checkCompleted w cur entries (N1, J1, E1)))"
    by blast
  have "notifiedKeys (snd (snd (checkCompleted w cur (a # entries) (N, J, E))))
          = notifiedKeys E @ (ks @ ks')"
    using u(1,3) r(1) by simp
  moreover have "keysOK N (ks @ ks') (fst (checkCompleted w cur (a # entries) (N, J, E)))"
    using keysOK_append [OF u(2) r(2)] u(3) by simp
  ultimately show ?case by blast
qed

lemma checkCompleted_mono:
  "set N \<subseteq> set (fst (checkCompleted w cur entries (N, J, E)))"
  using checkCompleted_keys [of w cur entries N J E] by (auto simp: keysOK_def)

lemma checkCompleted_adds:
  "(jid, lastJob) \<in> set entries \<Longrightarrow> \<not> map_has cur jid \<Longrightarrow>
   status lastJob = ''RUNNING'' \<or> status lastJob = ''PENDING'' \<Longrightarrow>
   jid \<in> set (fst (checkCompleted w cur entries (N, J, E)))"
proof (induction entries arbitrary: N J E)
  case Nil
  then show ?case by simp
next
  case (Cons a entries)
  obtain k j where a: "a = (k, j)" by (cases a)
  from checkCompleted_unfold [of E N cur k j w entries J] obtain N1 J1 E1 where
    u: "\<not> map_has cur k \<and> (status j = ''RUNNING'' \<or> status j = ''PENDING'') \<longrightarrow> k \<in> set N1"
       "checkCompleted w cur (a # entries) (N, J, E) = checkCompleted w cur entries (N1, J1, E1)"
    unfolding a by blast
  show ?case
  proof (cases "(jid, lastJob) = a")
    case True
    then have "jid \<in> set N1" using u(1) a Cons.prems(2,3) by auto
    then show ?thesis using u(2) checkCompleted_mono [of N1 w cur entries J1 E1] by auto
  next
    case False
    then have "(jid, lastJob) \<in> set entries" using Cons.prems by auto
    from Cons.IH [OF this Cons.prems(2,3)] show ?thesis using u(2) by simp
  qed
qed

lemma getSlurmJobs_keys:
  "keysOK (notifiedJobs p) (notifiedKeys (snd (snd (getSlurmJobs w p))))
     (notifiedJobs (fst (snd (getSlurmJobs w p))))"
proof (cases "executeSlurmCommand w ''squeue --version'' = []
              \<or> executeSlurmCommand w squeueCommand = []")
  case True
  then show ?thesis by (auto simp: getSlurmJobs_def Let_def)
next
  case False
  show ?thesis
  proof (cases "parseLines (filter (\<lambda>line. js_trim line \<noteq> [])
                               (js_split CHR 0x0A (executeSlurmCommand w squeueCommand)))")
    case None
    with False show ?thesis by (simp add: getSlurmJobs_def Let_def)
  next
    case (Some entries)
    from checkCompleted_keys
      [of w "foldl (\<lambda>m (k, j). map_set k j m) [] entries" "lastKnownJobs p" "notifiedJobs p"
          "map snd entries" "[]"]
    show ?thesis using False Some by (auto simp: getSlurmJobs_def Let_def case_prod_beta)
  qed
qed

text \<open>
  So a call of \<open>getSlurmJobs\<close> that runs alone notifies each key at most once, and
  only keys that were not in the notified set; it puts every key it notifies into the
  set and takes none out. The lemmas above are about such a call.
\<close>

subsection \<open>Calls that overlap\<close>

lemma finish_Returned [simp]: "finish w (Returned jobs) p effs = (jobs, p, effs)"
  by (simp add: finish.simps)

lemma finish_loop:
  "finish w (fst (advance cur jobs entries p)) (snd (advance cur jobs entries p)) effs
     = (let (N, J, E) = checkCompleted w cur entries (notifiedJobs p, jobs, effs)
        in (J, p\<lparr>lastKnownJobs := cur, notifiedJobs := N\<rparr>, E))"
proof (induction entries arbitrary: jobs p effs)
  case Nil
  show ?case by simp
next
  case (Cons a entries)
  obtain jid lastJob where a: "a = (jid, lastJob)" by (cases a)
  let ?go = "\<not> map_has cur jid \<and> \<not> set_has (notifiedJobs p) jid
              \<and> (status lastJob = ''RUNNING'' \<or> status lastJob = ''PENDING'')"
  show ?case
  proof (cases ?go)
    case False
    then have "advance cur jobs (a # entries) p = advance cur jobs entries p"
      unfolding a by auto
    moreover from False have "checkCompleted w cur (a # entries) (notifiedJobs p, jobs, effs)
        = checkCompleted w cur entries (notifiedJobs p, jobs, effs)"
      unfolding a by auto
    ultimately show ?thesis using Cons.IH [of jobs p effs] by simp
  next
    case True
    let ?out = "executeSlurmCommand w (sacctCommand jid)"
    let ?p1 = "p\<lparr>notifiedJobs := set_add (notifiedJobs p) jid\<rparr>"
    from True have adv: "advance cur jobs (a # entries) p
        = (AwaitSacct cur jobs jid lastJob entries, p)"
      unfolding a by simp
    show ?thesis
    proof (cases "?out = []")
      case e: True
      have "finish w (AwaitSacct cur jobs jid lastJob entries) p effs
          = finish w (fst (advance cur jobs entries ?p1)) (snd (advance cur jobs entries ?p1)) effs"
        by (subst finish.simps) (simp add: e Let_def case_prod_beta)
      moreover from True e have "checkCompleted w cur (a # entries) (notifiedJobs p, jobs, effs)
        = checkCompleted w cur entries (set_add (notifiedJobs p) jid, jobs, effs)"
        unfolding a by (simp add: Let_def)
      ultimately show ?thesis using Cons.IH [of jobs ?p1 effs] adv
        by (simp add: case_prod_beta Let_def)
    next
      case ne: False
      let ?final = "case js_split CHR 0x0A ?out of [] \<Rightarrow> [] | l # _ \<Rightarrow> js_trim l"
      let ?J = "jobs @ [lastJob\<lparr>status := ?final\<rparr>]"
      let ?E = "effs @ [NotifyCompletion jid (completionMessage lastJob jid ?final)]"
      have "finish w (AwaitSacct cur jobs jid lastJob entries) p effs
          = finish w (fst (advance cur ?J entries ?p1)) (snd (advance cur ?J entries ?p1)) ?E"
        by (subst finish.simps) (simp add: ne Let_def case_prod_beta)
      moreover from True ne have "checkCompleted w cur (a # entries) (notifiedJobs p, jobs, effs)
        = checkCompleted w cur entries (set_add (notifiedJobs p) jid, ?J, ?E)"
        unfolding a by (simp add: Let_def)
      ultimately show ?thesis using Cons.IH [of ?J ?p1 ?E] adv
        by (simp add: case_prod_beta Let_def)
    qed
  qed
qed

text \<open>
  A call that is answered until it returns, with no other call in between, is the
  call \<open>getSlurmJobs\<close> of the sections above.
\<close>

lemma finish_getSlurmJobs: "finish w AwaitVersion p [] = getSlurmJobs w p"
proof (cases "executeSlurmCommand w ''squeue --version'' = []")
  case True
  then show ?thesis
    by (subst finish.simps) (simp add: getSlurmJobs_def)
next
  case v: False
  then have 1: "finish w AwaitVersion p [] = finish w AwaitSqueue p []"
    by (subst finish.simps) simp
  show ?thesis
  proof (cases "executeSlurmCommand w squeueCommand = []")
    case True
    then show ?thesis unfolding 1 using v
      by (subst finish.simps) (simp add: getSlurmJobs_def)
  next
    case q: False
    show ?thesis
    proof (cases "parseLines (filter (\<lambda>line. js_trim line \<noteq> [])
                               (js_split CHR 0x0A (executeSlurmCommand w squeueCommand)))")
      case None
      then show ?thesis unfolding 1 using v q
        by (subst finish.simps) (simp add: getSlurmJobs_def)
    next
      case (Some entries)
      let ?cur = "foldl (\<lambda>m (k, j). map_set k j m) [] entries"
      have "finish w AwaitSqueue p []
         = finish w (fst (advance ?cur (map snd entries) (lastKnownJobs p) p))
                    (snd (advance ?cur (map snd entries) (lastKnownJobs p) p)) []"
        using q Some by (subst finish.simps) (simp add: Let_def case_prod_beta)
      then show ?thesis unfolding 1 using v q Some
        by (simp add: finish_loop getSlurmJobs_def Let_def case_prod_beta)
    qed
  qed
qed

text \<open>
  C10 at a failing input. A first poll has found the jobs \<open>1\<close> and \<open>2\<close> running.
  Job \<open>1\<close> leaves the queue, and two calls of \<open>getSlurmJobs\<close> are made one shortly
  after the other, as by two messages of the page, each of whose handlers starts
  \<open>updateView\<close> and does not await it. Both calls get the answers of
  \<open>squeue --version\<close> and \<open>squeue\<close>, and both come to job \<open>1\<close> in the loop while
  the notified set is still empty, so both await \<open>sacct\<close> for it. Then \<open>sacct\<close>
  answers the first call and the second: job \<open>1\<close> is notified twice. The test of the
  notified set (line 153) and the addition to it (line 175) are separated by the
  await of \<open>sacct\<close>. With the same answers given to the first call until it returns
  and then to the second, job \<open>1\<close> is notified once.
\<close>

theorem overlapping_polls_notify_twice:
  "lastKnownJobs (fst (snd (getSlurmJobs
       (queue (''1|a|RUNNING|node1|1:00|t'' @ [CHR 0x0A] @ ''2|b|RUNNING|node1|1:00|t''))
       newProvider)))
     = [(''1'', \<lparr> name = ''a'', jobId = ''1'', status = ''RUNNING'', nodelist = ''node1'',
                  runningTime = ''00:1:00'', startTime = ''t'' \<rparr>),
        (''2'', \<lparr> name = ''b'', jobId = ''2'', status = ''RUNNING'', nodelist = ''node1'',
                  runningTime = ''00:1:00'', startTime = ''t'' \<rparr>)]
   \<and> notifiedJobs (fst (snd (getSlurmJobs
       (queue (''1|a|RUNNING|node1|1:00|t'' @ [CHR 0x0A] @ ''2|b|RUNNING|node1|1:00|t''))
       newProvider))) = []
   \<and> snd (answers (queue ''2|b|RUNNING|node1|1:00|t'') [0, 0, 1, 1, 0, 1]
       (fst (snd (getSlurmJobs
          (queue (''1|a|RUNNING|node1|1:00|t'' @ [CHR 0x0A] @ ''2|b|RUNNING|node1|1:00|t''))
          newProvider)),
        [AwaitVersion, AwaitVersion]))
     = [NotifyCompletion ''1'' ''Job a (1) has failed'',
        NotifyCompletion ''1'' ''Job a (1) has failed'']
   \<and> map awaited (snd (fst (answers (queue ''2|b|RUNNING|node1|1:00|t'') [0, 0, 1, 1, 0, 1]
       (fst (snd (getSlurmJobs
          (queue (''1|a|RUNNING|node1|1:00|t'' @ [CHR 0x0A] @ ''2|b|RUNNING|node1|1:00|t''))
          newProvider)),
        [AwaitVersion, AwaitVersion])))) = [None, None]
   \<and> notifiedKeys (snd (answers (queue ''2|b|RUNNING|node1|1:00|t'') [0, 0, 0, 1, 1, 1]
       (fst (snd (getSlurmJobs
          (queue (''1|a|RUNNING|node1|1:00|t'' @ [CHR 0x0A] @ ''2|b|RUNNING|node1|1:00|t''))
          newProvider)),
        [AwaitVersion, AwaitVersion]))) = [''1'']"
  by code_simp

section \<open>Sections and their order\<close>

lemma set_insertBy [simp]: "set (insertBy c x xs) = insert x (set xs)"
  by (induction xs) auto

lemma mset_insertBy [simp]: "mset (insertBy c x xs) = add_mset x (mset xs)"
  by (induction xs) auto

lemma mset_js_sort [simp]: "mset (js_sort c xs) = mset xs"
  unfolding js_sort_def by (induction xs) auto

lemma set_js_sort [simp]: "set (js_sort c xs) = set xs"
  unfolding js_sort_def by (induction xs) auto

text \<open>
  Insertion keeps a list sorted for an order \<open>R\<close> that the comparator decides on the
  elements at hand: \<open>c a b \<le> 0\<close> gives \<open>R a b\<close>, the contrary gives \<open>R b a\<close>.
\<close>

lemma sorted_insertBy:
  assumes le: "\<And>a b. a \<in> A \<Longrightarrow> b \<in> A \<Longrightarrow> c a b \<le> 0 \<Longrightarrow> R a b"
      and ge: "\<And>a b. a \<in> A \<Longrightarrow> b \<in> A \<Longrightarrow> \<not> c a b \<le> 0 \<Longrightarrow> R b a"
      and tr: "\<And>a b d. a \<in> A \<Longrightarrow> b \<in> A \<Longrightarrow> d \<in> A \<Longrightarrow> R a b \<Longrightarrow> R b d \<Longrightarrow> R a d"
  shows "x \<in> A \<Longrightarrow> set xs \<subseteq> A \<Longrightarrow> sorted_wrt R xs \<Longrightarrow> sorted_wrt R (insertBy c x xs)"
proof (induction xs)
  case Nil
  then show ?case by simp
next
  case (Cons y ys)
  show ?case
  proof (cases "c x y \<le> 0")
    case True
    then have xy: "R x y" using le Cons.prems by simp
    have "R x z" if "z \<in> set ys" for z
      using tr [of x y z] xy that Cons.prems by auto
    with xy True Cons.prems show ?thesis by auto
  next
    case False
    then have yx: "R y x" using ge Cons.prems by simp
    have "sorted_wrt R (insertBy c x ys)" using Cons by simp
    moreover have "R y z" if "z \<in> set (insertBy c x ys)" for z
    proof -
      from that have "z = x \<or> z \<in> set ys" by simp
      then show ?thesis
      proof
        assume "z = x" with yx show ?thesis by simp
      next
        assume "z \<in> set ys" with Cons.prems show ?thesis by simp
      qed
    qed
    ultimately show ?thesis using False by simp
  qed
qed

lemma sorted_js_sort:
  assumes le: "\<And>a b. a \<in> A \<Longrightarrow> b \<in> A \<Longrightarrow> c a b \<le> 0 \<Longrightarrow> R a b"
      and ge: "\<And>a b. a \<in> A \<Longrightarrow> b \<in> A \<Longrightarrow> \<not> c a b \<le> 0 \<Longrightarrow> R b a"
      and tr: "\<And>a b d. a \<in> A \<Longrightarrow> b \<in> A \<Longrightarrow> d \<in> A \<Longrightarrow> R a b \<Longrightarrow> R b d \<Longrightarrow> R a d"
  shows "set xs \<subseteq> A \<Longrightarrow> sorted_wrt R (js_sort c xs)"
proof (induction xs)
  case Nil
  show ?case by (simp add: js_sort_def)
next
  case (Cons x xs)
  have "sorted_wrt R (insertBy c x (js_sort c xs))"
    by (rule sorted_insertBy [where A = A and c = c, OF le ge tr]) (use Cons in auto)
  then show ?case by (simp add: js_sort_def)
qed

lemma sampleCompare_total: "sampleCompare x y \<le> 0 \<or> sampleCompare y x \<le> 0"
  by (induction x y rule: sampleCompare.induct) auto

lemma sampleCompare_trans:
  "sampleCompare x y \<le> 0 \<Longrightarrow> sampleCompare y z \<le> 0 \<Longrightarrow> sampleCompare x z \<le> 0"
proof (induction x arbitrary: y z)
  case Nil
  then show ?case by (cases z) auto
next
  case (Cons a x)
  then show ?case
    by (cases y; cases z) (auto split: if_splits)
qed

lemma rowJob_generateJobsHtml [simp]: "map rowJob (generateJobsHtml s js) = js"
  by (simp add: generateJobsHtml_def comp_def)

lemma sorted_wrt_js_slice0: "sorted_wrt R xs \<Longrightarrow> sorted_wrt R (js_slice0 xs n)"
  by (simp add: js_slice0_def sorted_wrt_take)

lemma set_js_slice0: "set (js_slice0 xs n) \<subseteq> set xs"
  by (auto simp: js_slice0_def dest: in_set_takeD)

lemma sorted_compareJobs:
  assumes tot: "\<forall>x y. localeCompare e x y \<le> 0 \<or> localeCompare e y x \<le> 0"
      and tr: "\<forall>x y z. localeCompare e x y \<le> 0 \<longrightarrow> localeCompare e y z \<le> 0
                 \<longrightarrow> localeCompare e x z \<le> 0"
      and ok: "\<forall>j\<in>set jobs. \<not> inheritedProperty (status j)"
  shows "sorted_wrt
           (\<lambda>a b. statusPriority (status a) < statusPriority (status b)
                 \<or> (statusPriority (status a) = statusPriority (status b)
                    \<and> localeCompare e (name a) (name b) \<le> 0))
           (js_sort (compareJobs e) jobs)"
proof (rule sorted_js_sort [where A = "set jobs"])
  fix a b assume "a \<in> set jobs" "b \<in> set jobs" "compareJobs e a b \<le> 0"
  with ok show "statusPriority (status a) < statusPriority (status b)
                 \<or> (statusPriority (status a) = statusPriority (status b)
                    \<and> localeCompare e (name a) (name b) \<le> 0)"
    by (auto simp: compareJobs_def Let_def split: if_splits)
next
  fix a b assume "a \<in> set jobs" "b \<in> set jobs" "\<not> compareJobs e a b \<le> 0"
  with ok tot show "statusPriority (status b) < statusPriority (status a)
                 \<or> (statusPriority (status b) = statusPriority (status a)
                    \<and> localeCompare e (name b) (name a) \<le> 0)"
    by (auto simp: compareJobs_def Let_def split: if_splits)
next
  fix a b d
  assume "statusPriority (status a) < statusPriority (status b)
                 \<or> (statusPriority (status a) = statusPriority (status b)
                    \<and> localeCompare e (name a) (name b) \<le> 0)"
     and "statusPriority (status b) < statusPriority (status d)
                 \<or> (statusPriority (status b) = statusPriority (status d)
                    \<and> localeCompare e (name b) (name d) \<le> 0)"
  with tr show "statusPriority (status a) < statusPriority (status d)
                 \<or> (statusPriority (status a) = statusPriority (status d)
                    \<and> localeCompare e (name a) (name d) \<le> 0)"
    by (metis order_less_trans)
qed simp

lemma sorted_compareItems:
  assumes tot: "\<forall>x y. localeCompare e x y \<le> 0 \<or> localeCompare e y x \<le> 0"
      and tr: "\<forall>x y z. localeCompare e x y \<le> 0 \<longrightarrow> localeCompare e y z \<le> 0
                 \<longrightarrow> localeCompare e x z \<le> 0"
      and ok: "\<forall>i\<in>set items. \<not> inheritedProperty (itemStatus i)"
  shows "sorted_wrt
           (\<lambda>a b. statusOrder (itemStatus a) < statusOrder (itemStatus b)
                 \<or> (statusOrder (itemStatus a) = statusOrder (itemStatus b)
                    \<and> localeCompare e (label a) (label b) \<le> 0))
           (js_sort (compareItems e) items)"
proof (rule sorted_js_sort [where A = "set items"])
  fix a b assume "a \<in> set items" "b \<in> set items" "compareItems e a b \<le> 0"
  with ok show "statusOrder (itemStatus a) < statusOrder (itemStatus b)
                 \<or> (statusOrder (itemStatus a) = statusOrder (itemStatus b)
                    \<and> localeCompare e (label a) (label b) \<le> 0)"
    by (auto simp: compareItems_def Let_def split: if_splits)
next
  fix a b assume "a \<in> set items" "b \<in> set items" "\<not> compareItems e a b \<le> 0"
  with ok tot show "statusOrder (itemStatus b) < statusOrder (itemStatus a)
                 \<or> (statusOrder (itemStatus b) = statusOrder (itemStatus a)
                    \<and> localeCompare e (label b) (label a) \<le> 0)"
    by (auto simp: compareItems_def Let_def split: if_splits)
next
  fix a b d
  assume "statusOrder (itemStatus a) < statusOrder (itemStatus b)
                 \<or> (statusOrder (itemStatus a) = statusOrder (itemStatus b)
                    \<and> localeCompare e (label a) (label b) \<le> 0)"
     and "statusOrder (itemStatus b) < statusOrder (itemStatus d)
                 \<or> (statusOrder (itemStatus b) = statusOrder (itemStatus d)
                    \<and> localeCompare e (label b) (label d) \<le> 0)"
  with tr show "statusOrder (itemStatus a) < statusOrder (itemStatus d)
                 \<or> (statusOrder (itemStatus a) = statusOrder (itemStatus d)
                    \<and> localeCompare e (label a) (label d) \<le> 0)"
    by (metis order_less_trans)
qed simp

text \<open>
  C4, as the code has it. The priority of \<open>updateView\<close> is \<open>RUNNING\<close> 0,
  \<open>PENDING\<close> 1, \<open>COMPLETING\<close> 2, \<open>FAILED\<close> 3 and 999 for every other status,
  \<open>COMPLETED\<close> and \<open>FINISHED\<close> among them. The page shows the Active jobs, then the
  Scheduled jobs if that section is expanded, then the Historical jobs if that section
  is expanded. The Active section holds exactly the jobs of the snapshot with status
  \<open>RUNNING\<close> or \<open>COMPLETING\<close>, the Scheduled section exactly those with status
  \<open>PENDING\<close>; the Historical section holds the jobs of every other status, put in
  order and then cut by \<open>slice(0, jobHistorySize)\<close>, which for a negative size drops
  that many jobs from the end. Each section is in the order of that priority, and of
  the names within one priority: in a section Running comes before Completing, and
  Failed before all other historical jobs. The tree of \<open>getChildren\<close> has no sections:
  it holds one item for each job of the poll whose name the filter of the provider
  matches, in the order of its own priority, which is \<open>RUNNING\<close> 0, \<open>COMPLETING\<close> 1,
  \<open>PENDING\<close> 2, \<open>FAILED\<close> 3, \<open>FINISHED\<close> and \<open>COMPLETED\<close> 4 and 999 for every
  other status, and of the labels within one priority. This holds for a
  \<open>localeCompare\<close> that is total and transitive and for statuses that name no property
  of \<open>Object.prototype\<close>.
\<close>

theorem sections_ordered:
  assumes tot: "\<forall>x y. localeCompare e x y \<le> 0 \<or> localeCompare e y x \<le> 0"
      and tr: "\<forall>x y z. localeCompare e x y \<le> 0 \<longrightarrow> localeCompare e y z \<le> 0
                 \<longrightarrow> localeCompare e x z \<le> 0"
      and ok: "\<forall>j\<in>set jobs. \<not> inheritedProperty (status j)"
      and ok': "\<forall>j\<in>set (fst (getSlurmJobs w p)). \<not> inheritedProperty (status j)"
  shows "statusPriority ''RUNNING'' = 0 \<and> statusPriority ''PENDING'' = 1
       \<and> statusPriority ''COMPLETING'' = 2 \<and> statusPriority ''FAILED'' = 3
       \<and> (\<forall>st. st \<notin> set [''RUNNING'', ''PENDING'', ''COMPLETING'', ''FAILED'']
             \<longrightarrow> statusPriority st = 999)
       \<and> statusOrder ''RUNNING'' = 0 \<and> statusOrder ''COMPLETING'' = 1
       \<and> statusOrder ''PENDING'' = 2 \<and> statusOrder ''FAILED'' = 3
       \<and> statusOrder ''FINISHED'' = 4 \<and> statusOrder ''COMPLETED'' = 4
       \<and> (\<forall>st. st \<notin> set [''RUNNING'', ''COMPLETING'', ''PENDING'', ''FAILED'', ''FINISHED'',
                            ''COMPLETED'']
             \<longrightarrow> statusOrder st = 999)
       \<and> shownJobs (renderView e s jobs) =
           map rowJob (runningRows (renderView e s jobs))
           @ (if isScheduledJobsExpanded s then map rowJob (scheduledRows (renderView e s jobs)) else [])
           @ (if isPastJobsExpanded s then map rowJob (pastRows (renderView e s jobs)) else [])
       \<and> mset (map rowJob (runningRows (renderView e s jobs)))
           = mset (filter (\<lambda>j. status j = ''RUNNING'' \<or> status j = ''COMPLETING'') jobs)
       \<and> mset (map rowJob (scheduledRows (renderView e s jobs)))
           = mset (filter (\<lambda>j. status j = ''PENDING'') jobs)
       \<and> (\<exists>H. mset H = mset (filter (\<lambda>j. status j \<noteq> ''RUNNING'' \<and> status j \<noteq> ''PENDING''
                                          \<and> status j \<noteq> ''COMPLETING'') jobs)
              \<and> sorted_wrt
                  (\<lambda>a b. statusPriority (status a) < statusPriority (status b)
                        \<or> (statusPriority (status a) = statusPriority (status b)
                           \<and> localeCompare e (name a) (name b) \<le> 0)) H
              \<and> map rowJob (pastRows (renderView e s jobs))
                  = (if jobHistorySize e < 0
                     then take (nat (int (length H) + jobHistorySize e)) H
                     else take (nat (jobHistorySize e)) H))
       \<and> sorted_wrt
           (\<lambda>a b. statusPriority (status a) < statusPriority (status b)
                 \<or> (statusPriority (status a) = statusPriority (status b)
                    \<and> localeCompare e (name a) (name b) \<le> 0))
           (map rowJob (runningRows (renderView e s jobs)))
       \<and> sorted_wrt
           (\<lambda>a b. statusPriority (status a) < statusPriority (status b)
                 \<or> (statusPriority (status a) = statusPriority (status b)
                    \<and> localeCompare e (name a) (name b) \<le> 0))
           (map rowJob (scheduledRows (renderView e s jobs)))
       \<and> sorted_wrt
           (\<lambda>a b. statusPriority (status a) < statusPriority (status b)
                 \<or> (statusPriority (status a) = statusPriority (status b)
                    \<and> localeCompare e (name a) (name b) \<le> 0))
           (map rowJob (pastRows (renderView e s jobs)))
       \<and> mset (fst (getChildren e w p))
           = mset (map (\<lambda>j. \<lparr> label = name j, itemJobId = jobId j, itemStatus = status j,
                                itemNodelist = nodelist j, itemRunningTime = runningTime j,
                                confirmKill = (jobId j \<in> set (jobsToConfirm p)) \<rparr>)
                    (filter (\<lambda>j. case filterRegex p of None \<Rightarrow> True | Some r \<Rightarrow> r (name j))
                       (fst (getSlurmJobs w p))))
       \<and> sorted_wrt
           (\<lambda>a b. statusOrder (itemStatus a) < statusOrder (itemStatus b)
                 \<or> (statusOrder (itemStatus a) = statusOrder (itemStatus b)
                    \<and> localeCompare e (label a) (label b) \<le> 0))
           (fst (getChildren e w p))"
proof -
  let ?R = "\<lambda>a b. statusPriority (status a) < statusPriority (status b)
                 \<or> (statusPriority (status a) = statusPriority (status b)
                    \<and> localeCompare e (name a) (name b) \<le> 0)"
  let ?hist = "\<lambda>j. status j \<noteq> ''RUNNING'' \<and> status j \<noteq> ''PENDING'' \<and> status j \<noteq> ''COMPLETING''"
  have p1: "statusPriority ''RUNNING'' = 0 \<and> statusPriority ''PENDING'' = 1
       \<and> statusPriority ''COMPLETING'' = 2 \<and> statusPriority ''FAILED'' = 3"
    by (simp add: statusPriority_def)
  have p2: "\<forall>st. st \<notin> set [''RUNNING'', ''PENDING'', ''COMPLETING'', ''FAILED'']
             \<longrightarrow> statusPriority st = 999"
    by (simp add: statusPriority_def)
  have o1: "statusOrder ''RUNNING'' = 0 \<and> statusOrder ''COMPLETING'' = 1
       \<and> statusOrder ''PENDING'' = 2 \<and> statusOrder ''FAILED'' = 3
       \<and> statusOrder ''FINISHED'' = 4 \<and> statusOrder ''COMPLETED'' = 4"
    by (simp add: statusOrder_def)
  have o2: "\<forall>st. st \<notin> set [''RUNNING'', ''COMPLETING'', ''PENDING'', ''FAILED'', ''FINISHED'',
                            ''COMPLETED'']
             \<longrightarrow> statusOrder st = 999"
    by (simp add: statusOrder_def)
  have srt: "sorted_wrt ?R (js_sort (compareJobs e) jobs)"
    by (rule sorted_compareJobs [OF tot tr ok])
  have flt: "sorted_wrt ?R (filter P (js_sort (compareJobs e) jobs))" for P
    using srt by (rule sorted_wrt_filter)
  have shown: "shownJobs (renderView e s jobs) =
           map rowJob (runningRows (renderView e s jobs))
           @ (if isScheduledJobsExpanded s then map rowJob (scheduledRows (renderView e s jobs)) else [])
           @ (if isPastJobsExpanded s then map rowJob (pastRows (renderView e s jobs)) else [])"
    by (simp add: shownJobs_def renderView_def Let_def)
  have run: "map rowJob (runningRows (renderView e s jobs)) =
          filter (\<lambda>j. status j = ''RUNNING'' \<or> status j = ''COMPLETING'') (js_sort (compareJobs e) jobs)"
    by (simp add: renderView_def Let_def)
  have sch: "map rowJob (scheduledRows (renderView e s jobs)) =
          filter (\<lambda>j. status j = ''PENDING'') (js_sort (compareJobs e) jobs)"
    by (simp add: renderView_def Let_def)
  have pst: "map rowJob (pastRows (renderView e s jobs)) =
          js_slice0 (filter ?hist (js_sort (compareJobs e) jobs)) (jobHistorySize e)"
    by (simp add: renderView_def Let_def)
  have m1: "mset (map rowJob (runningRows (renderView e s jobs)))
           = mset (filter (\<lambda>j. status j = ''RUNNING'' \<or> status j = ''COMPLETING'') jobs)"
    by (simp only: run mset_filter mset_js_sort)
  have m2: "mset (map rowJob (scheduledRows (renderView e s jobs)))
           = mset (filter (\<lambda>j. status j = ''PENDING'') jobs)"
    by (simp only: sch mset_filter mset_js_sort)
  have h1: "mset (filter ?hist (js_sort (compareJobs e) jobs)) = mset (filter ?hist jobs)"
    by (simp only: mset_filter mset_js_sort)
  have h3: "map rowJob (pastRows (renderView e s jobs))
      = (if jobHistorySize e < 0
         then take (nat (int (length (filter ?hist (js_sort (compareJobs e) jobs)))
                      + jobHistorySize e)) (filter ?hist (js_sort (compareJobs e) jobs))
         else take (nat (jobHistorySize e)) (filter ?hist (js_sort (compareJobs e) jobs)))"
    unfolding pst by (simp add: js_slice0_def)
  have m3: "\<exists>H. mset H = mset (filter ?hist jobs) \<and> sorted_wrt ?R H
              \<and> map rowJob (pastRows (renderView e s jobs))
                  = (if jobHistorySize e < 0
                     then take (nat (int (length H) + jobHistorySize e)) H
                     else take (nat (jobHistorySize e)) H)"
    using h1 flt [of ?hist] h3 by blast
  have s1: "sorted_wrt ?R (map rowJob (runningRows (renderView e s jobs)))"
    unfolding run by (rule flt)
  have s2: "sorted_wrt ?R (map rowJob (scheduledRows (renderView e s jobs)))"
    unfolding sch by (rule flt)
  have s3: "sorted_wrt ?R (map rowJob (pastRows (renderView e s jobs)))"
    unfolding pst by (rule sorted_wrt_js_slice0 [OF flt])
  have t1: "mset (fst (getChildren e w p))
           = mset (map (\<lambda>j. \<lparr> label = name j, itemJobId = jobId j, itemStatus = status j,
                                itemNodelist = nodelist j, itemRunningTime = runningTime j,
                                confirmKill = (jobId j \<in> set (jobsToConfirm p)) \<rparr>)
                    (filter (\<lambda>j. case filterRegex p of None \<Rightarrow> True | Some r \<Rightarrow> r (name j))
                       (fst (getSlurmJobs w p))))"
    by (simp add: getChildren_def Let_def case_prod_beta getSlurmJobs_frame isJobToConfirm_def
          set_has_def split: option.splits)
  have s4: "sorted_wrt
           (\<lambda>a b. statusOrder (itemStatus a) < statusOrder (itemStatus b)
                 \<or> (statusOrder (itemStatus a) = statusOrder (itemStatus b)
                    \<and> localeCompare e (label a) (label b) \<le> 0))
           (fst (getChildren e w p))"
    unfolding getChildren_def Let_def case_prod_beta fst_conv
    by (rule sorted_compareItems [OF tot tr]) (use ok' in \<open>auto split: option.splits\<close>)
  from p1 p2 o1 o2 shown m1 m2 m3 s1 s2 s3 t1 s4 show ?thesis by blast
qed


theorem sections_ordered_witness:
  "map (\<lambda>j. (name j, status j)) (shownJobs (renderView sampleEnv
       (resolved\<lparr>isPastJobsExpanded := True, isScheduledJobsExpanded := True\<rparr>)
       [mkJob ''1'' ''b'' ''COMPLETED'', mkJob ''2'' ''z'' ''FAILED'', mkJob ''3'' ''a'' ''COMPLETING'',
        mkJob ''4'' ''e'' ''PENDING'', mkJob ''5'' ''y'' ''RUNNING'', mkJob ''6'' ''a'' ''CANCELLED'']))
     = [(''y'', ''RUNNING''), (''a'', ''COMPLETING''), (''e'', ''PENDING''), (''z'', ''FAILED''),
        (''a'', ''CANCELLED''), (''b'', ''COMPLETED'')]
   \<and> map (\<lambda>i. (label i, itemStatus i)) (fst (getChildren sampleEnv
       (queue (''1|b|COMPLETED|node1|1:00|t'' @ [CHR 0x0A] @ ''2|z|FAILED|node1|1:00|t''
          @ [CHR 0x0A] @ ''3|a|COMPLETING|node1|1:00|t'' @ [CHR 0x0A] @ ''4|e|PENDING|node1|1:00|t''
          @ [CHR 0x0A] @ ''5|y|RUNNING|node1|1:00|t'' @ [CHR 0x0A] @ ''6|a|CANCELLED|node1|1:00|t'')) newProvider))
     = [(''y'', ''RUNNING''), (''a'', ''COMPLETING''), (''e'', ''PENDING''), (''z'', ''FAILED''),
        (''b'', ''COMPLETED''), (''a'', ''CANCELLED'')]
   \<and> sorted_wrt
       (\<lambda>a b. statusPriority (status a) < statusPriority (status b)
             \<or> (statusPriority (status a) = statusPriority (status b)
                \<and> localeCompare sampleEnv (name a) (name b) \<le> 0))
       (map rowJob (pastRows (renderView sampleEnv
       (resolved\<lparr>isPastJobsExpanded := True, isScheduledJobsExpanded := True\<rparr>)
       [mkJob ''1'' ''b'' ''COMPLETED'', mkJob ''2'' ''z'' ''FAILED'', mkJob ''3'' ''a'' ''COMPLETING'',
        mkJob ''4'' ''e'' ''PENDING'', mkJob ''5'' ''y'' ''RUNNING'', mkJob ''6'' ''a'' ''CANCELLED''])))
   \<and> sorted_wrt
       (\<lambda>a b. statusOrder (itemStatus a) < statusOrder (itemStatus b)
             \<or> (statusOrder (itemStatus a) = statusOrder (itemStatus b)
                \<and> localeCompare sampleEnv (label a) (label b) \<le> 0))
       (fst (getChildren sampleEnv
       (queue (''1|b|COMPLETED|node1|1:00|t'' @ [CHR 0x0A] @ ''2|z|FAILED|node1|1:00|t''
          @ [CHR 0x0A] @ ''3|a|COMPLETING|node1|1:00|t'' @ [CHR 0x0A] @ ''4|e|PENDING|node1|1:00|t''
          @ [CHR 0x0A] @ ''5|y|RUNNING|node1|1:00|t'' @ [CHR 0x0A] @ ''6|a|CANCELLED|node1|1:00|t'')) newProvider))"
proof -
  have tot: "\<forall>x y. localeCompare sampleEnv x y \<le> 0 \<or> localeCompare sampleEnv y x \<le> 0"
    using sampleCompare_total by (simp add: sampleEnv_def)
  have tr: "\<forall>x y z. localeCompare sampleEnv x y \<le> 0 \<longrightarrow> localeCompare sampleEnv y z \<le> 0
                 \<longrightarrow> localeCompare sampleEnv x z \<le> 0"
    using sampleCompare_trans by (auto simp: sampleEnv_def)
  have ok: "\<forall>j\<in>set [mkJob ''1'' ''b'' ''COMPLETED'', mkJob ''2'' ''z'' ''FAILED'', mkJob ''3'' ''a'' ''COMPLETING'',
        mkJob ''4'' ''e'' ''PENDING'', mkJob ''5'' ''y'' ''RUNNING'', mkJob ''6'' ''a'' ''CANCELLED'']. \<not> inheritedProperty (status j)"
    by (simp add: mkJob_def inheritedProperty_def)
  have ok': "\<forall>j\<in>set (fst (getSlurmJobs
       (queue (''1|b|COMPLETED|node1|1:00|t'' @ [CHR 0x0A] @ ''2|z|FAILED|node1|1:00|t''
          @ [CHR 0x0A] @ ''3|a|COMPLETING|node1|1:00|t'' @ [CHR 0x0A] @ ''4|e|PENDING|node1|1:00|t''
          @ [CHR 0x0A] @ ''5|y|RUNNING|node1|1:00|t'' @ [CHR 0x0A] @ ''6|a|CANCELLED|node1|1:00|t'')) newProvider)). \<not> inheritedProperty (status j)"
    by code_simp
  note t = sections_ordered [OF tot tr ok ok',
             of "resolved\<lparr>isPastJobsExpanded := True, isScheduledJobsExpanded := True\<rparr>"]
  have v1: "map (\<lambda>j. (name j, status j)) (shownJobs (renderView sampleEnv
       (resolved\<lparr>isPastJobsExpanded := True, isScheduledJobsExpanded := True\<rparr>)
       [mkJob ''1'' ''b'' ''COMPLETED'', mkJob ''2'' ''z'' ''FAILED'', mkJob ''3'' ''a'' ''COMPLETING'',
        mkJob ''4'' ''e'' ''PENDING'', mkJob ''5'' ''y'' ''RUNNING'', mkJob ''6'' ''a'' ''CANCELLED'']))
     = [(''y'', ''RUNNING''), (''a'', ''COMPLETING''), (''e'', ''PENDING''), (''z'', ''FAILED''),
        (''a'', ''CANCELLED''), (''b'', ''COMPLETED'')]"
    by code_simp
  have v2: "map (\<lambda>i. (label i, itemStatus i)) (fst (getChildren sampleEnv
       (queue (''1|b|COMPLETED|node1|1:00|t'' @ [CHR 0x0A] @ ''2|z|FAILED|node1|1:00|t''
          @ [CHR 0x0A] @ ''3|a|COMPLETING|node1|1:00|t'' @ [CHR 0x0A] @ ''4|e|PENDING|node1|1:00|t''
          @ [CHR 0x0A] @ ''5|y|RUNNING|node1|1:00|t'' @ [CHR 0x0A] @ ''6|a|CANCELLED|node1|1:00|t'')) newProvider))
     = [(''y'', ''RUNNING''), (''a'', ''COMPLETING''), (''e'', ''PENDING''), (''z'', ''FAILED''),
        (''b'', ''COMPLETED''), (''a'', ''CANCELLED'')]"
    by code_simp
  from t have c1: "sorted_wrt
       (\<lambda>a b. statusPriority (status a) < statusPriority (status b)
             \<or> (statusPriority (status a) = statusPriority (status b)
                \<and> localeCompare sampleEnv (name a) (name b) \<le> 0))
       (map rowJob (pastRows (renderView sampleEnv
       (resolved\<lparr>isPastJobsExpanded := True, isScheduledJobsExpanded := True\<rparr>)
       [mkJob ''1'' ''b'' ''COMPLETED'', mkJob ''2'' ''z'' ''FAILED'', mkJob ''3'' ''a'' ''COMPLETING'',
        mkJob ''4'' ''e'' ''PENDING'', mkJob ''5'' ''y'' ''RUNNING'', mkJob ''6'' ''a'' ''CANCELLED''])))"
    by (elim conjE)
  from t have c2: "sorted_wrt
       (\<lambda>a b. statusOrder (itemStatus a) < statusOrder (itemStatus b)
             \<or> (statusOrder (itemStatus a) = statusOrder (itemStatus b)
                \<and> localeCompare sampleEnv (label a) (label b) \<le> 0))
       (fst (getChildren sampleEnv
       (queue (''1|b|COMPLETED|node1|1:00|t'' @ [CHR 0x0A] @ ''2|z|FAILED|node1|1:00|t''
          @ [CHR 0x0A] @ ''3|a|COMPLETING|node1|1:00|t'' @ [CHR 0x0A] @ ''4|e|PENDING|node1|1:00|t''
          @ [CHR 0x0A] @ ''5|y|RUNNING|node1|1:00|t'' @ [CHR 0x0A] @ ''6|a|CANCELLED|node1|1:00|t'')) newProvider))"
    by (elim conjE)
  from v1 v2 c1 c2 show ?thesis by (intro conjI)
qed

text \<open>
  C4 as stated fails: of two historical jobs the cancelled one, \<open>a\<close>, is shown before
  the completed one, \<open>b\<close>, although Completed ranks before any other status in the
  order of the claim, which is the order of \<open>statusOrder\<close>.
\<close>

theorem completed_not_before_other_statuses:
  "map status (shownJobs (renderView sampleEnv (resolved\<lparr>isPastJobsExpanded := True\<rparr>)
       [mkJob ''1'' ''b'' ''COMPLETED'', mkJob ''2'' ''a'' ''CANCELLED'']))
     = [''CANCELLED'', ''COMPLETED'']
   \<and> statusOrder ''COMPLETED'' < statusOrder ''CANCELLED''"
  by code_simp

text \<open>
  C5 at a failing input. The history size is 1, the Historical section is expanded and
  the queue holds two failed jobs. The page shows one historical job, \<open>1\<close>;
  \<open>selectAll\<close> selects both, \<open>1\<close> and \<open>2\<close>: the visible set of \<open>getVisibleJobs\<close> is
  not cut at the history size.
\<close>

theorem selectAll_selects_beyond_history_size:
  "map jobId (shownJobs (renderView (sampleEnv\<lparr>jobHistorySize := 1\<rparr>)
       (resolved\<lparr>isPastJobsExpanded := True\<rparr>)
       (fst (getSlurmJobs
          (queue (''1|a|FAILED|node1|1:00|t'' @ [CHR 0x0A] @ ''2|b|FAILED|node1|1:00|t''))
          newProvider)))) = [''1'']
   \<and> selectedJobs (fst (selectAll (sampleEnv\<lparr>jobHistorySize := 1\<rparr>)
        (queue (''1|a|FAILED|node1|1:00|t'' @ [CHR 0x0A] @ ''2|b|FAILED|node1|1:00|t''))
        (queue (''1|a|FAILED|node1|1:00|t'' @ [CHR 0x0A] @ ''2|b|FAILED|node1|1:00|t''))
        True (resolved\<lparr>isPastJobsExpanded := True\<rparr>))) = [''1'', ''2'']"
  by code_simp

section \<open>Filter matching\<close>


lemma apply_filter_fields [simp]:
  "selected_jobs (apply_filter ere t) = selected_jobs t"
  "jobs_data (apply_filter ere t) = jobs_data t"
  "filter_mode (apply_filter ere t) = filter_mode t"
  "filter_text (apply_filter ere t) = filter_text t"
  "selected_index (apply_filter ere t) = selected_index t"
  by (simp_all add: apply_filter_def)




end
